theory Spec2Isabelle
  imports Main "HOL-Library.Sublist"
begin

section \<open>The type model of package bindings, as the generator reads it\<close>

text \<open>
  The generator of package \<^verbatim>\<open>rest\<close> (file \<^verbatim>\<open>bindings/rest/generator.go\<close>) works on
  pointers \<^verbatim>\<open>*bindings.Type\<close>. A type node carries a field \<^verbatim>\<open>TypeData\<close> of interface
  type, on which \<^verbatim>\<open>WriterMethodForType\<close> switches. Nodes point to other nodes, so the
  nodes live in a store: an address is a natural number, and an address at which the
  store holds nothing stands for the nil pointer.

  The declarations of package \<^verbatim>\<open>bindings\<close> are not among the sources. The dynamic types
  of \<^verbatim>\<open>TypeData\<close> below are the ones named by the cases of the type switch, with the
  fields the generator reads (\<^verbatim>\<open>AliasFor\<close>, \<^verbatim>\<open>TargetType\<close>, \<^verbatim>\<open>Name\<close>,
  \<^verbatim>\<open>InputTypes\<close>); the remaining components follow the data model of the specification.
  \<open>OtherData\<close> stands for every dynamic value that none of the cases of the switch
  matches (the nil interface value among them): \<^verbatim>\<open>TypeData\<close> is switched against
  \<^verbatim>\<open>string\<close>, so it is the empty interface and can hold any value.
  The struct pointers held in \<^verbatim>\<open>TypeData\<close> are taken to be non-nil.
\<close>

type_synonym addr = nat

record FunctionTypeData =
  InputTypes :: "addr list"
  OutputTypes :: "addr list"

record RecordTypeData =
  Name :: string
  Fields :: "(string \<times> addr) list"

datatype TypeData =
    StringData string
  | AliasTypeData string addr
  | ReferenceTypeData string addr
  | FunctionData FunctionTypeData
  | TupleTypeData "addr list"
  | RecordData RecordTypeData
  | MapTypeData addr addr
  | ListTypeData addr
  | OtherData

type_synonym store = "addr \<rightharpoonup> TypeData"

text \<open>
  Modelled from the spec: the method \<^verbatim>\<open>NumInputs\<close> of \<^verbatim>\<open>FunctionTypeData\<close> is missing
  from the sources; the specification speaks of the declared input count of an operation,
  which is the number of its input types.
\<close>

definition NumInputs :: "FunctionTypeData \<Rightarrow> nat" where
  "NumInputs opType = length (InputTypes opType)"

section \<open>Errors, panics and results\<close>

text \<open>
  The generator never builds an error value of its own kind: it panics, either with
  \<^verbatim>\<open>errors.New(msg)\<close>, with the error a template returned, or through a runtime error
  (nil dereference, failed type assertion, index out of range). A call either returns a
  value or panics; a call that does neither (unbounded recursion) has no outcome at all,
  which the functions below express by the result \<open>None\<close>.
\<close>

datatype runtime_error = NilDereference | TypeAssertion | IndexOutOfRange

datatype error =
    ErrorsNew string
  | TemplateParseError
  | TemplateExecError
  | RuntimeError runtime_error

datatype 'a outcome = Returns 'a | Panics error

section \<open>The generator\<close>

text \<open>
  Modelled from the spec: the declaration of \<^verbatim>\<open>HttpBinding\<close> is missing from the
  sources; the specification gives it a method, an endpoint template and a parameter
  placement.
\<close>

datatype placement = Path | Query | Body

record HttpBinding =
  Method :: string
  EndpointTemplate :: string
  ParameterPlacement :: placement

text \<open>
  The struct \<^verbatim>\<open>Generator\<close>. Go maps are finite maps (a nil map reads like an empty
  one); the interface \<^verbatim>\<open>ITypeSystem\<close> is represented by its method \<^verbatim>\<open>GetType\<close>, with
  \<open>None\<close> for the nil interface; the function-valued field \<^verbatim>\<open>ArgListMaker\<close> is
  \<open>ArgListMaker_field\<close> here (the package-level function keeps the name), with \<open>None\<close>
  for a nil function; the pointers \<^verbatim>\<open>ServiceType\<close> and \<^verbatim>\<open>OpType\<close> are options.
\<close>

record Generator =
  Bindings :: "string \<rightharpoonup> HttpBinding"
  TypeSystem :: "(string \<Rightarrow> string \<Rightarrow> addr) option"
  TemplatesDir :: string
  Package :: string
  ClientPackageName :: string
  ServiceName :: string
  ClientPrefix :: string
  ClientSuffix :: string
  httpBindings :: "string \<rightharpoonup> HttpBinding"
  ArgListMaker_field :: "(addr list \<Rightarrow> bool \<Rightarrow> string) option"
  ServiceType :: "RecordTypeData option"
  TransportRequest :: string
  OpName :: string
  OpType :: "FunctionTypeData option"
  OpMethod :: string
  OpEndpoint :: string

abbreviation NL :: string where "NL \<equiv> [CHR 0x0A]"
abbreviation TAB :: string where "TAB \<equiv> [CHR 0x09]"
abbreviation DQ :: string where "DQ \<equiv> [CHR 0x22]"

subsection \<open>ArgListMaker\<close>

text \<open>
  \<^verbatim>\<open>fmt.Sprintf("arg%d ", index)\<close> prints the loop index, a non-negative integer, in
  decimal.
\<close>

definition digit_char :: "nat \<Rightarrow> char" where
  "digit_char d = ''0123456789'' ! d"

fun itoa :: "nat \<Rightarrow> string" where
  "itoa n = (if n < 10 then [digit_char n] else itoa (n div 10) @ [digit_char (n mod 10)])"

declare itoa.simps [simp del]

text \<open>
  \<^verbatim>\<open>
  func ArgListMaker(paramTypes []*bindings.Type, withNames bool) string {
      out := ""
      for index, param := range paramTypes {
          if index > 0 { out += ", " }
          if withNames { out += fmt.Sprintf("arg%d ", index) }
          out += param.Signature()
      }
      return out
  }
  \<close>
  The method \<^verbatim>\<open>Signature\<close> of a type node is not among the sources; it is a parameter.
\<close>

fun ArgListMaker_loop ::
  "(addr \<Rightarrow> string) \<Rightarrow> bool \<Rightarrow> nat \<Rightarrow> addr list \<Rightarrow> string \<Rightarrow> string" where
  "ArgListMaker_loop Signature withNames index [] out = out"
| "ArgListMaker_loop Signature withNames index (param # rest) out =
     (let out1 = (if index > 0 then out @ '', '' else out);
          out2 = (if withNames then out1 @ ''arg'' @ itoa index @ '' '' else out1);
          out3 = out2 @ Signature param
      in ArgListMaker_loop Signature withNames (Suc index) rest out3)"

definition ArgListMaker :: "(addr \<Rightarrow> string) \<Rightarrow> addr list \<Rightarrow> bool \<Rightarrow> string" where
  "ArgListMaker Signature paramTypes withNames =
     ArgListMaker_loop Signature withNames 0 paramTypes ''''"

subsection \<open>ClientName and NewGenerator\<close>

definition ClientName :: "Generator \<Rightarrow> string" where
  "ClientName g = ClientPrefix g @ ServiceName g @ ClientSuffix g"

text \<open>
  \<^verbatim>\<open>NewGenerator\<close> replaces a nil binding table by an empty one and fills in the defaults;
  the fields it does not mention keep their zero values.
\<close>

definition NewGenerator ::
  "(addr \<Rightarrow> string) \<Rightarrow> (string \<rightharpoonup> HttpBinding) option \<Rightarrow>
   (string \<Rightarrow> string \<Rightarrow> addr) option \<Rightarrow> string \<Rightarrow> Generator" where
  "NewGenerator Signature bindings typeSys templatesDir =
     \<lparr> Bindings = (case bindings of None \<Rightarrow> Map.empty | Some b \<Rightarrow> b),
       TypeSystem = typeSys,
       TemplatesDir = templatesDir,
       Package = '''',
       ClientPackageName = ''restclient'',
       ServiceName = '''',
       ClientPrefix = '''',
       ClientSuffix = ''Client'',
       httpBindings = Map.empty,
       ArgListMaker_field = Some (ArgListMaker Signature),
       ServiceType = None,
       TransportRequest = ''*http.Request'',
       OpName = '''',
       OpType = None,
       OpMethod = '''',
       OpEndpoint = '''' \<rparr>"

subsection \<open>WriterMethodForType\<close>

text \<open>
  \<^verbatim>\<open>
  func WriterMethodForType(t *bindings.Type) string {
      switch typeData := t.TypeData.(type) {
      case string:                      return "Write_" + typeData
      case *bindings.AliasTypeData:     return WriterMethodForType(typeData.AliasFor)
      case *bindings.ReferenceTypeData: return WriterMethodForType(typeData.TargetType)
      case *bindings.FunctionTypeData:  panic(errors.New("Function types not supported in GO"))
      case *bindings.TupleTypeData:     panic(errors.New("Warning: Tuple types not supported in GO"))
      case *bindings.RecordTypeData:    return "Write_" + typeData.Name
      case *bindings.MapTypeData:       return "Write_Map"
      case *bindings.ListTypeData:      return "Write_List"
      }
      return "UnknownWriter"
  }
  \<close>
  The recursion follows pointers and need not end, so the function is partial: \<open>None\<close>
  is the call that never returns. Reading \<^verbatim>\<open>t.TypeData\<close> through a nil pointer panics.
\<close>

partial_function (option) WriterMethodForType :: "store \<Rightarrow> addr \<Rightarrow> string outcome option" where
  "WriterMethodForType h t =
     (case h t of
        None \<Rightarrow> Some (Panics (RuntimeError NilDereference))
      | Some (StringData typeData) \<Rightarrow> Some (Returns (''Write_'' @ typeData))
      | Some (AliasTypeData n aliasFor) \<Rightarrow> WriterMethodForType h aliasFor
      | Some (ReferenceTypeData n targetType) \<Rightarrow> WriterMethodForType h targetType
      | Some (FunctionData typeData) \<Rightarrow>
          Some (Panics (ErrorsNew ''Function types not supported in GO''))
      | Some (TupleTypeData elements) \<Rightarrow>
          Some (Panics (ErrorsNew ''Warning: Tuple types not supported in GO''))
      | Some (RecordData typeData) \<Rightarrow> Some (Returns (''Write_'' @ Name typeData))
      | Some (MapTypeData keyType valueType) \<Rightarrow> Some (Returns ''Write_Map'')
      | Some (ListTypeData elementType) \<Rightarrow> Some (Returns ''Write_List'')
      | Some OtherData \<Rightarrow> Some (Returns ''UnknownWriter''))"

subsection \<open>The output stream and the templates\<close>

text \<open>
  \<^verbatim>\<open>output\<close> is an \<^verbatim>\<open>io.Writer\<close>: a state of type \<open>'w\<close> and a method \<^verbatim>\<open>Write\<close> that,
  given the bytes, yields the new state and whether it returned an error.
  \<open>buffer_Write\<close> is the writer that appends to a byte buffer and never fails.

  Executing a parsed template writes its pieces (literal text and the values of its
  actions) in order and stops with an error at the first write that fails. Both
  templates of the generator are constants of the source that parse, so the panic after
  \<^verbatim>\<open>Parse\<close> has no input that reaches it.
\<close>

type_synonym 'w Writer = "'w \<Rightarrow> string \<Rightarrow> 'w \<times> bool"

definition buffer_Write :: "string Writer" where
  "buffer_Write output p = (output @ p, False)"

fun Execute :: "'w Writer \<Rightarrow> 'w \<Rightarrow> string list \<Rightarrow> 'w \<times> bool" where
  "Execute Write output [] = (output, False)"
| "Execute Write output (p # ps) =
     (let (output1, err) = Write output p
      in if err then (output1, True) else Execute Write output1 ps)"

text \<open>
  \<^verbatim>\<open>StartWritingMethod\<close> executes, on the generator itself, the template
  \<^verbatim>\<open>
  func (svc *{{$.ClientName}}) Send{{.OpName}}Request({{call .ArgListMaker .OpType.InputTypes true }}) (resp *http.Response, error) {
      body := bytes.NewBuffer(nil)
  \<close>
  (with a leading newline and a trailing newline and tab) and panics with the error of
  the execution, if any. Evaluating the call fails when \<^verbatim>\<open>ArgListMaker\<close> is nil or
  \<^verbatim>\<open>OpType\<close> is a nil pointer. The parameters \<^verbatim>\<open>opName\<close>, \<^verbatim>\<open>opType\<close> and
  \<^verbatim>\<open>argPrefix\<close> are not used by the body.
\<close>

definition StartWritingMethod ::
  "'w Writer \<Rightarrow> Generator \<Rightarrow> 'w \<Rightarrow> string \<Rightarrow> FunctionTypeData option \<Rightarrow> string \<Rightarrow>
   'w \<times> error option outcome" where
  "StartWritingMethod Write g output opName opType argPrefix =
     (let (output1, err) =
        Execute Write output
          [NL @ ''func (svc *'', ClientName g, '') Send'', OpName g, ''Request('']
      in if err then (output1, Panics TemplateExecError)
         else (case (ArgListMaker_field g, OpType g) of
                 (Some maker, Some ft) \<Rightarrow>
                   (let (output2, err) =
                      Execute Write output1
                        [maker (InputTypes ft) True,
                         '') (resp *http.Response, error) {'' @ NL @ TAB @
                         ''body := bytes.NewBuffer(nil)'' @ NL @ TAB]
                    in if err then (output2, Panics TemplateExecError)
                       else (output2, Returns None))
               | _ \<Rightarrow> (output1, Panics TemplateExecError)))"

text \<open>
  \<^verbatim>\<open>EndWritingMethod\<close> executes the template of the request construction, which
  interpolates \<^verbatim>\<open>OpMethod\<close> and \<^verbatim>\<open>OpEndpoint\<close>, and closes the method.
\<close>

definition EndWritingMethod ::
  "'w Writer \<Rightarrow> Generator \<Rightarrow> 'w \<Rightarrow> string \<Rightarrow> FunctionTypeData option \<Rightarrow>
   'w \<times> error option outcome" where
  "EndWritingMethod Write g output opName opType =
     (let (output1, err) =
        Execute Write output
          [NL @ TAB @ ''httpreq, err := http.NewRequest('' @ DQ,
           OpMethod g,
           DQ @ '', '' @ DQ,
           OpEndpoint g,
           DQ @ '', body)'' @ NL @ TAB @
           ''if err != nil {'' @ NL @ TAB @ TAB @
           ''return nil, err'' @ NL @ TAB @
           ''}'' @ NL @ TAB @
           ''httpreq.Header.Add('' @ DQ @ ''Content-Type'' @ DQ @ '', '' @ DQ @
             ''application/json'' @ DQ @ '')'' @ NL @ TAB @
           ''if svc.RequestDecorator != nil {'' @ NL @ TAB @ TAB @
           ''httpreq, err = svc.RequestDecorator(httpreq)'' @ NL @ TAB @ TAB @
           ''if err != nil { return nil, err }'' @ NL @ TAB @
           ''}'' @ NL @ TAB @
           ''c := http.Client{}'' @ NL @ TAB @
           ''return c.Do(httpreq)'' @ NL @
           ''}'' @ NL @ TAB]
      in if err then (output1, Panics TemplateExecError) else (output1, Returns None))"

subsection \<open>Writer calls and lists\<close>

text \<open>
  \<^verbatim>\<open>
  func (g *Generator) EmitObjectWriterCall(output io.Writer, key interface{}, argName string, argType *bindings.Type) error {
      callString := WriterMethodForType(argType)
      output.Write([]byte(callString + "(body, " + argName + ")"))
      return nil
  }
  \<close>
  The result of \<^verbatim>\<open>output.Write\<close> is dropped. \<^verbatim>\<open>StartWritingList\<close> and
  \<^verbatim>\<open>EndWritingList\<close> write one bracket each.
\<close>

definition EmitObjectWriterCall ::
  "'w Writer \<Rightarrow> store \<Rightarrow> Generator \<Rightarrow> 'w \<Rightarrow> nat option \<Rightarrow> string \<Rightarrow> addr \<Rightarrow>
   ('w \<times> error option outcome) option" where
  "EmitObjectWriterCall Write h g output key argName argType =
     (case WriterMethodForType h argType of
        None \<Rightarrow> None
      | Some (Panics e) \<Rightarrow> Some (output, Panics e)
      | Some (Returns callString) \<Rightarrow>
          Some (fst (Write output (callString @ ''(body, '' @ argName @ '')'')), Returns None))"

definition StartWritingList :: "'w Writer \<Rightarrow> 'w \<Rightarrow> 'w" where
  "StartWritingList Write output = fst (Write output ''['')"

definition EndWritingList :: "'w Writer \<Rightarrow> 'w \<Rightarrow> 'w" where
  "EndWritingList Write output = fst (Write output '']'')"

subsection \<open>EmitSendRequestMethod\<close>

text \<open>
  \<^verbatim>\<open>
  func (g *Generator) EmitSendRequestMethod(output io.Writer, opName string, opType *bindings.FunctionTypeData, argPrefix string) error {
      g.OpName = opName
      g.OpType = opType
      g.OpMethod = "GET"
      g.OpEndpoint = "http://hello.world/"
      g.StartWritingMethod(output, opName, opType, "arg")
      if opType.NumInputs() > 0 {
          if opType.NumInputs() == 1 {
              g.EmitObjectWriterCall(output, nil, "arg0", opType.InputTypes[0])
          } else {
              g.StartWritingList(output)
              for index, param := range opType.InputTypes {
                  g.EmitObjectWriterCall(output, index, fmt.Sprintf("arg%d", index), param)
              }
              g.EndWritingList(output)
          }
      }
      g.EndWritingMethod(output, opName, opType)
      return nil
  }
  \<close>
  The result carries the generator as the assignments left it, the state of the output
  stream, and the outcome: the returned error, or the panic that ended the call.
\<close>

fun EmitSendRequestMethod_loop ::
  "'w Writer \<Rightarrow> store \<Rightarrow> Generator \<Rightarrow> 'w \<Rightarrow> nat \<Rightarrow> addr list \<Rightarrow>
   ('w \<times> unit outcome) option" where
  "EmitSendRequestMethod_loop Write h g output index [] = Some (output, Returns ())"
| "EmitSendRequestMethod_loop Write h g output index (param # rest) =
     (case EmitObjectWriterCall Write h g output (Some index) (''arg'' @ itoa index) param of
        None \<Rightarrow> None
      | Some (output1, Panics e) \<Rightarrow> Some (output1, Panics e)
      | Some (output1, Returns _) \<Rightarrow>
          EmitSendRequestMethod_loop Write h g output1 (Suc index) rest)"

definition EmitSendRequestMethod_args ::
  "'w Writer \<Rightarrow> store \<Rightarrow> Generator \<Rightarrow> 'w \<Rightarrow> FunctionTypeData \<Rightarrow>
   ('w \<times> unit outcome) option" where
  "EmitSendRequestMethod_args Write h g output ft =
     (if NumInputs ft > 0 then
        (if NumInputs ft = 1 then
           (case InputTypes ft of
              [] \<Rightarrow> Some (output, Panics (RuntimeError IndexOutOfRange))
            | t # _ \<Rightarrow>
                (case EmitObjectWriterCall Write h g output None ''arg0'' t of
                   None \<Rightarrow> None
                 | Some (output1, Panics e) \<Rightarrow> Some (output1, Panics e)
                 | Some (output1, Returns _) \<Rightarrow> Some (output1, Returns ())))
         else
           (case EmitSendRequestMethod_loop Write h g (StartWritingList Write output) 0
                   (InputTypes ft) of
              None \<Rightarrow> None
            | Some (output1, Panics e) \<Rightarrow> Some (output1, Panics e)
            | Some (output1, Returns _) \<Rightarrow> Some (EndWritingList Write output1, Returns ())))
      else Some (output, Returns ()))"

definition EmitSendRequestMethod ::
  "'w Writer \<Rightarrow> store \<Rightarrow> Generator \<Rightarrow> 'w \<Rightarrow> string \<Rightarrow> FunctionTypeData option \<Rightarrow> string \<Rightarrow>
   (Generator \<times> 'w \<times> error option outcome) option" where
  "EmitSendRequestMethod Write h g0 output opName opType argPrefix =
     (let g = g0\<lparr>OpName := opName, OpType := opType, OpMethod := ''GET'',
                 OpEndpoint := ''http://hello.world/''\<rparr>
      in case StartWritingMethod Write g output opName opType ''arg'' of
           (output1, Panics e) \<Rightarrow> Some (g, output1, Panics e)
         | (output1, Returns _) \<Rightarrow>
             (case opType of
                None \<Rightarrow> Some (g, output1, Panics (RuntimeError NilDereference))
              | Some ft \<Rightarrow>
                  (case EmitSendRequestMethod_args Write h g output1 ft of
                     None \<Rightarrow> None
                   | Some (output2, Panics e) \<Rightarrow> Some (g, output2, Panics e)
                   | Some (output2, Returns _) \<Rightarrow>
                       (case EndWritingMethod Write g output2 opName opType of
                          (output3, Panics e) \<Rightarrow> Some (g, output3, Panics e)
                        | (output3, Returns _) \<Rightarrow> Some (g, output3, Returns None)))))"

subsection \<open>EmitClientClass\<close>

text \<open>
  \<^verbatim>\<open>
  func (g *Generator) EmitClientClass(pkgName string, serviceName string) error {
      g.ServiceName = serviceName
      g.ServiceType = g.TypeSystem.GetType(pkgName, serviceName).TypeData.(RecordTypeDataPtr)
      tmpl, err := template.New("client.gen").ParseFiles(g.TemplatesDir + "client.gen")
      if err != nil { panic(err) }
      err = tmpl.Execute(os.Stdout, g)
      if err != nil { panic(err) }
      return err
  }
  \<close>
  where \<^verbatim>\<open>RecordTypeDataPtr\<close> abbreviates the pointer type to \<^verbatim>\<open>bindings.RecordTypeData\<close>:
  the assertion has the single-value form, which panics when the dynamic type differs.
  The lookup \<^verbatim>\<open>GetType\<close> is not among the sources; it is the field \<open>TypeSystem\<close>,
  a function from the package and the name to a pointer.
  The template files are a parameter: a path either has no template that parses, or has
  one, which maps the generator to the text it writes to standard output and to whether
  its execution failed. Standard output is a string that grows.
\<close>

type_synonym template = "Generator \<Rightarrow> string \<times> bool"

definition EmitClientClass ::
  "(string \<rightharpoonup> template) \<Rightarrow> store \<Rightarrow> Generator \<Rightarrow> string \<Rightarrow> string \<Rightarrow> string \<Rightarrow>
   Generator \<times> string \<times> error option outcome" where
  "EmitClientClass files h g0 stdout pkgName serviceName =
     (let g = g0\<lparr>ServiceName := serviceName\<rparr>
      in case TypeSystem g of
           None \<Rightarrow> (g, stdout, Panics (RuntimeError NilDereference))
         | Some GetType \<Rightarrow>
             (case h (GetType pkgName serviceName) of
                None \<Rightarrow> (g, stdout, Panics (RuntimeError NilDereference))
              | Some (RecordData typeData) \<Rightarrow>
                  (let g1 = g\<lparr>ServiceType := Some typeData\<rparr>
                   in case files (TemplatesDir g1 @ ''client.gen'') of
                        None \<Rightarrow> (g1, stdout, Panics TemplateParseError)
                      | Some tmpl \<Rightarrow>
                          (let (text, err) = tmpl g1
                           in if err then (g1, stdout @ text, Panics TemplateExecError)
                              else (g1, stdout @ text, Returns None)))
              | Some _ \<Rightarrow> (g, stdout, Panics (RuntimeError TypeAssertion))))"

section \<open>Notions used to state the properties\<close>

text \<open>
  The chain of alias and reference wrappers that starts at a node: \<open>wrapper_target\<close>
  is the node a wrapper points to, and \<open>chain h n t\<close> is the node reached from \<open>t\<close>
  after following \<open>n\<close> wrappers, if the chain is that long.
\<close>

definition wrapper_target :: "TypeData option \<Rightarrow> addr option" where
  "wrapper_target d =
     (case d of
        Some (AliasTypeData n aliasFor) \<Rightarrow> Some aliasFor
      | Some (ReferenceTypeData n targetType) \<Rightarrow> Some targetType
      | _ \<Rightarrow> None)"

fun chain :: "store \<Rightarrow> nat \<Rightarrow> addr \<Rightarrow> addr option" where
  "chain h 0 t = Some t"
| "chain h (Suc n) t =
     (case wrapper_target (h t) of None \<Rightarrow> None | Some t' \<Rightarrow> chain h n t')"

text \<open>
  Joining rendered items with a separator, as in a comma-joined list.
\<close>

fun join :: "string \<Rightarrow> string list \<Rightarrow> string" where
  "join sep [] = ''''"
| "join sep [x] = x"
| "join sep (x # y # ys) = x @ sep @ join sep (y # ys)"

text \<open>
  The text of a method as the two templates produce it: the header, up to the creation
  of the body buffer, and the construction and dispatch of the request, with the closing
  brace. Between them stands the text of the writer calls: \<open>writer_call\<close> is one call,
  \<open>writer_calls\<close> the calls for the arguments numbered from an index on, and
  \<open>method_body_text\<close> the text for an operation whose inputs have the given writers:
  nothing for no input, the call alone for one input, the bracketed calls otherwise.
\<close>

definition method_header_text :: "string \<Rightarrow> string \<Rightarrow> string \<Rightarrow> string" where
  "method_header_text clientName opName args =
     NL @ ''func (svc *'' @ clientName @ '') Send'' @ opName @ ''Request('' @ args @
     '') (resp *http.Response, error) {'' @ NL @ TAB @
     ''body := bytes.NewBuffer(nil)'' @ NL @ TAB"

definition request_text :: "string \<Rightarrow> string \<Rightarrow> string" where
  "request_text opMethod opEndpoint =
     NL @ TAB @ ''httpreq, err := http.NewRequest('' @ DQ @ opMethod @ DQ @ '', '' @ DQ @
       opEndpoint @ DQ @ '', body)'' @ NL @ TAB @
     ''if err != nil {'' @ NL @ TAB @ TAB @
     ''return nil, err'' @ NL @ TAB @
     ''}'' @ NL @ TAB @
     ''httpreq.Header.Add('' @ DQ @ ''Content-Type'' @ DQ @ '', '' @ DQ @
       ''application/json'' @ DQ @ '')'' @ NL @ TAB @
     ''if svc.RequestDecorator != nil {'' @ NL @ TAB @ TAB @
     ''httpreq, err = svc.RequestDecorator(httpreq)'' @ NL @ TAB @ TAB @
     ''if err != nil { return nil, err }'' @ NL @ TAB @
     ''}'' @ NL @ TAB @
     ''c := http.Client{}'' @ NL @ TAB @
     ''return c.Do(httpreq)'' @ NL @
     ''}'' @ NL @ TAB"

definition writer_call :: "string \<Rightarrow> string \<Rightarrow> string" where
  "writer_call writerName argName = writerName @ ''(body, '' @ argName @ '')''"

definition writer_calls :: "nat \<Rightarrow> string list \<Rightarrow> string" where
  "writer_calls index writerNames =
     concat (map (\<lambda>(i, writerName). writer_call writerName (''arg'' @ itoa i))
                 (enumerate index writerNames))"

definition method_body_text :: "string list \<Rightarrow> string" where
  "method_body_text writerNames =
     (case writerNames of
        [] \<Rightarrow> ''''
      | [writerName] \<Rightarrow> writer_call writerName ''arg0''
      | _ \<Rightarrow> ''['' @ writer_calls 0 writerNames @ '']'')"

text \<open>Example data: a small type store and a generator with the defaults.\<close>

definition example_store :: store where
  "example_store =
     [0 \<mapsto> StringData ''string'',
      1 \<mapsto> RecordData \<lparr>Name = ''Team'', Fields = [(''Name'', 0)]\<rparr>,
      2 \<mapsto> AliasTypeData ''TeamAlias'' 1,
      3 \<mapsto> TupleTypeData [0, 0]]"

definition example_Signature :: "addr \<Rightarrow> string" where
  "example_Signature t = ''T'' @ itoa t"

definition example_generator :: Generator where
  "example_generator = NewGenerator example_Signature None None ''templates/''"

definition example_bindings :: "string \<rightharpoonup> HttpBinding" where
  "example_bindings =
     [''CreateTeam'' \<mapsto>
        \<lparr>Method = ''POST'', EndpointTemplate = ''/teams/'', ParameterPlacement = Body\<rparr>]"

definition example_types :: "string \<Rightarrow> string \<Rightarrow> addr" where
  "example_types pkgName name =
     (if name = ''string'' then 0 else if name = ''Team'' then 1 else 4)"

definition example_files :: "string \<rightharpoonup> template" where
  "example_files =
     [''templates/client.gen'' \<mapsto> (\<lambda>g. (''type '' @ ClientName g @ '' struct {}'', False))]"

text \<open>
  The service of the round trip: the primitive \<open>string\<close> at address 0, the operation
  \<open>SayHello\<close> at address 1 and the record \<open>Greeter\<close> at address 2, registered under
  its name; every other name is looked up to nil. \<open>SayHello_method_text\<close> is the method
  expected for the operation.
\<close>

definition Greeter_store :: store where
  "Greeter_store =
     [0 \<mapsto> StringData ''string'',
      1 \<mapsto> FunctionData \<lparr>InputTypes = [0], OutputTypes = [0]\<rparr>,
      2 \<mapsto> RecordData \<lparr>Name = ''Greeter'', Fields = [(''SayHello'', 1)]\<rparr>]"

definition Greeter_types :: "string \<Rightarrow> string \<Rightarrow> addr" where
  "Greeter_types pkgName name = (if name = ''Greeter'' then 2 else 3)"

definition SayHello_method_text :: string where
  "SayHello_method_text =
     method_header_text ''GreeterClient'' ''SayHello'' ''arg0 string''
       @ ''Write_string(body, arg0)''
       @ request_text ''GET'' ''http://hello.world/''"

text \<open>The number of places of a text at which a pattern starts.\<close>

fun occurrences :: "string \<Rightarrow> string \<Rightarrow> nat" where
  "occurrences pat [] = (if pat = [] then 1 else 0)"
| "occurrences pat (c # cs) = (if prefix pat (c # cs) then 1 else 0) + occurrences pat cs"

section \<open>Following wrappers\<close>

lemma WriterMethodForType_wrapper:
  "wrapper_target (h t) = Some t' \<Longrightarrow> WriterMethodForType h t = WriterMethodForType h t'"
  by (subst WriterMethodForType.simps)
     (auto simp: wrapper_target_def split: option.splits TypeData.splits)

lemma chain_add:
  "chain h (m + n) t = (case chain h m t of None \<Rightarrow> None | Some p \<Rightarrow> chain h n p)"
  by (induction m arbitrary: t) (auto split: option.splits)

lemma chain_prefix: "chain h (m + n) t \<noteq> None \<Longrightarrow> chain h m t \<noteq> None"
  by (simp add: chain_add split: option.splits)

lemma WriterMethodForType_follows_chain:
  "chain h n t = Some p \<Longrightarrow> WriterMethodForType h t = WriterMethodForType h p"
proof (induction n arbitrary: t)
  case 0
  then show ?case by simp
next
  case (Suc n)
  then obtain t' where t': "wrapper_target (h t) = Some t'" "chain h n t' = Some p"
    by (auto split: option.splits)
  then show ?case using Suc.IH WriterMethodForType_wrapper by simp
qed

text \<open>A call that has an outcome has reached the end of the chain of wrappers.\<close>

lemma WriterMethodForType_chain_end:
  assumes "WriterMethodForType h t = Some r"
  shows "\<exists>n p. chain h n t = Some p \<and> wrapper_target (h p) = None"
proof (rule WriterMethodForType.raw_induct
    [where P = "\<lambda>h t r. \<exists>n p. chain h n t = Some p \<and> wrapper_target (h p) = None",
      OF _ assms], goal_cases)
  case (1 W h t r)
  show ?case
  proof (cases "wrapper_target (h t)")
    case None
    then have "chain h 0 t = Some t \<and> wrapper_target (h t) = None" by simp
    then show ?thesis by blast
  next
    case (Some t')
    then have "W h t' = Some r"
      using 1(2) by (auto simp: wrapper_target_def split: option.splits TypeData.splits)
    then obtain n p where "chain h n t' = Some p" "wrapper_target (h p) = None"
      using 1(1) by blast
    then have "chain h (Suc n) t = Some p \<and> wrapper_target (h p) = None"
      using Some by simp
    then show ?thesis by blast
  qed
qed

text \<open>A chain that comes back to a node has a node at every distance.\<close>

lemma loop_all_defined:
  assumes k: "0 < k" and ret: "chain h k p = Some p"
  shows "chain h n p \<noteq> None"
proof (induction n rule: less_induct)
  case (less n)
  show ?case
  proof (cases "n < k")
    case True
    then have "chain h (n + (k - n)) p \<noteq> None" using ret by simp
    then show ?thesis by (rule chain_prefix)
  next
    case False
    then have n: "n = k + (n - k)" by simp
    have "n - k < n" using False k by simp
    then have "chain h (n - k) p \<noteq> None" by (rule less.IH)
    moreover have "chain h n p = chain h (n - k) p"
      by (subst n) (simp add: chain_add ret)
    ultimately show ?thesis by simp
  qed
qed

lemma cyclic_all_defined:
  assumes "i < j" "chain h i t = Some p" "chain h j t = Some p"
  shows "chain h n t \<noteq> None"
proof -
  have j: "j = i + (j - i)" using assms(1) by simp
  have "chain h (i + (j - i)) t = Some p" using assms(3) j by simp
  then have ret: "chain h (j - i) p = Some p" by (simp add: chain_add assms(2))
  have pos: "0 < j - i" using assms(1) by simp
  show ?thesis
  proof (cases "n \<le> i")
    case True
    then have "chain h (n + (i - n)) t \<noteq> None" using assms(2) by simp
    then show ?thesis by (rule chain_prefix)
  next
    case False
    then have n: "n = i + (n - i)" by simp
    have "chain h n t = chain h (n - i) p"
      by (subst n) (simp add: chain_add assms(2))
    then show ?thesis using loop_all_defined [OF pos ret] by simp
  qed
qed

lemma WriterMethodForType_cyclic:
  assumes "i < j" "chain h i t = Some p" "chain h j t = Some p"
  shows "WriterMethodForType h t = None"
proof (rule ccontr)
  assume "WriterMethodForType h t \<noteq> None"
  then obtain r where "WriterMethodForType h t = Some r" by auto
  then obtain n q where q: "chain h n t = Some q" "wrapper_target (h q) = None"
    using WriterMethodForType_chain_end by blast
  have "chain h (n + Suc 0) t = None" unfolding chain_add by (simp add: q)
  moreover have "chain h (n + Suc 0) t \<noteq> None" using assms by (rule cyclic_all_defined)
  ultimately show False by simp
qed

section \<open>The writer dispatch\<close>

text \<open>
  Claim C1, as the code has it. Whenever the chain of alias and reference wrappers that
  starts at \<open>t\<close> ends, after finitely many steps, at a node \<open>p\<close> that is not a wrapper,
  \<open>WriterMethodForType\<close> has an outcome, fixed by the kind of \<open>p\<close>: the name
  \<open>Write_\<close> followed by the name of a primitive or of a record, \<open>Write_Map\<close>,
  \<open>Write_List\<close>, a panic whose message names tuples or functions, a nil-dereference
  panic when \<open>p\<close> is nil, and, for type data that no case of the switch matches, the
  generic name \<open>UnknownWriter\<close>.
\<close>

theorem WriterMethodForType_classification:
  assumes "chain h n t = Some p" and "wrapper_target (h p) = None"
  shows "(\<exists>name. h p = Some (StringData name) \<and>
            WriterMethodForType h t = Some (Returns (''Write_'' @ name)))
       \<or> (\<exists>typeData. h p = Some (RecordData typeData) \<and>
            WriterMethodForType h t = Some (Returns (''Write_'' @ Name typeData)))
       \<or> (\<exists>k v. h p = Some (MapTypeData k v) \<and>
            WriterMethodForType h t = Some (Returns ''Write_Map''))
       \<or> (\<exists>e. h p = Some (ListTypeData e) \<and>
            WriterMethodForType h t = Some (Returns ''Write_List''))
       \<or> (\<exists>es. h p = Some (TupleTypeData es) \<and>
            WriterMethodForType h t =
              Some (Panics (ErrorsNew ''Warning: Tuple types not supported in GO'')))
       \<or> (\<exists>f. h p = Some (FunctionData f) \<and>
            WriterMethodForType h t =
              Some (Panics (ErrorsNew ''Function types not supported in GO'')))
       \<or> (h p = Some OtherData \<and>
            WriterMethodForType h t = Some (Returns ''UnknownWriter''))
       \<or> (h p = None \<and>
            WriterMethodForType h t = Some (Panics (RuntimeError NilDereference)))"
proof -
  have eq: "WriterMethodForType h t = WriterMethodForType h p"
    using assms(1) by (rule WriterMethodForType_follows_chain)
  show ?thesis
  proof (cases "h p")
    case None
    then show ?thesis
      using WriterMethodForType.simps [of h p] unfolding eq by simp
  next
    case (Some d)
    then show ?thesis
      using assms(2) WriterMethodForType.simps [of h p] unfolding eq
      by (cases d) (simp_all add: wrapper_target_def)
  qed
qed

theorem WriterMethodForType_classification_witness:
  "chain [0 \<mapsto> AliasTypeData ''TeamAlias'' 1,
          1 \<mapsto> RecordData \<lparr>Name = ''Team'', Fields = []\<rparr>] 1 0 = Some 1
   \<and> wrapper_target ([0 \<mapsto> AliasTypeData ''TeamAlias'' 1,
          1 \<mapsto> RecordData \<lparr>Name = ''Team'', Fields = []\<rparr>] 1) = None
   \<and> WriterMethodForType [0 \<mapsto> AliasTypeData ''TeamAlias'' 1,
          1 \<mapsto> RecordData \<lparr>Name = ''Team'', Fields = []\<rparr>] 0 = Some (Returns ''Write_Team'')"
  using WriterMethodForType_classification
    [of "[0 \<mapsto> AliasTypeData ''TeamAlias'' 1,
          1 \<mapsto> RecordData \<lparr>Name = ''Team'', Fields = []\<rparr>]" 1 0 1]
  by (simp add: wrapper_target_def)

text \<open>
  Against C1 as stated: a node whose type data is none of the eight kinds gets the
  generic name.
\<close>

theorem WriterMethodForType_fallback_counterexample:
  "WriterMethodForType [0 \<mapsto> OtherData] 0 = Some (Returns ''UnknownWriter'')"
  by (simp add: WriterMethodForType.simps)

text \<open>
  Claim C2, as the code has it. There is no cycle guard: when the chain of wrappers that
  starts at \<open>t\<close> visits a node \<open>p\<close> twice (after \<open>i\<close> and after \<open>j\<close> steps),
  \<open>WriterMethodForType\<close> has no outcome at all; it neither returns nor reports an
  error.
\<close>

theorem WriterMethodForType_cycle_no_outcome:
  assumes "i < j" and "chain h i t = Some p" and "chain h j t = Some p"
  shows "WriterMethodForType h t = None"
  using assms by (rule WriterMethodForType_cyclic)

theorem WriterMethodForType_cycle_no_outcome_witness:
  "(0::nat) < 1
   \<and> chain [0 \<mapsto> AliasTypeData ''Self'' 0] 0 0 = Some 0
   \<and> chain [0 \<mapsto> AliasTypeData ''Self'' 0] 1 0 = Some 0
   \<and> WriterMethodForType [0 \<mapsto> AliasTypeData ''Self'' 0] 0 = None"
  using WriterMethodForType_cycle_no_outcome [of 0 1 "[0 \<mapsto> AliasTypeData ''Self'' 0]" 0 0]
  by (simp add: wrapper_target_def)

text \<open>
  Against C2 as stated: on an alias and a reference that point to each other the call
  has no outcome, so it does not fail with a resolution error.
\<close>

theorem WriterMethodForType_cycle_counterexample:
  "WriterMethodForType [0 \<mapsto> AliasTypeData ''A'' 1, 1 \<mapsto> ReferenceTypeData ''B'' 0] 0 = None"
proof -
  have "chain [0 \<mapsto> AliasTypeData ''A'' 1, 1 \<mapsto> ReferenceTypeData ''B'' 0] 0 0 = Some 0"
    by simp
  moreover have
    "chain [0 \<mapsto> AliasTypeData ''A'' 1, 1 \<mapsto> ReferenceTypeData ''B'' 0] (Suc (Suc 0)) 0 = Some 0"
    by (simp add: wrapper_target_def)
  ultimately show ?thesis
    using WriterMethodForType_cyclic [of 0 "Suc (Suc 0)"] by simp
qed

text \<open>
  Claim C8. \<open>WriterMethodForType\<close> gives an alias node and a reference node the outcome
  of the node they point to, whatever that outcome is, and it maps a primitive and a
  record to \<open>Write_\<close> followed by the name, a map to \<open>Write_Map\<close> and a list to
  \<open>Write_List\<close>. The node \<open>t\<close> of the store is the one that holds the type in question.
\<close>

theorem WriterMethodForType_resolved_dispatch:
  "WriterMethodForType (h(t \<mapsto> AliasTypeData n a)) t
     = WriterMethodForType (h(t \<mapsto> AliasTypeData n a)) a
   \<and> WriterMethodForType (h(t \<mapsto> ReferenceTypeData n a)) t
     = WriterMethodForType (h(t \<mapsto> ReferenceTypeData n a)) a
   \<and> WriterMethodForType (h(t \<mapsto> StringData name)) t = Some (Returns (''Write_'' @ name))
   \<and> WriterMethodForType (h(t \<mapsto> RecordData \<lparr>Name = name, Fields = fs\<rparr>)) t
     = Some (Returns (''Write_'' @ name))
   \<and> WriterMethodForType (h(t \<mapsto> MapTypeData k v)) t = Some (Returns ''Write_Map'')
   \<and> WriterMethodForType (h(t \<mapsto> ListTypeData e)) t = Some (Returns ''Write_List'')"
proof -
  have 1: "WriterMethodForType (h(t \<mapsto> AliasTypeData n a)) t
     = WriterMethodForType (h(t \<mapsto> AliasTypeData n a)) a"
    by (rule WriterMethodForType_wrapper) (simp add: wrapper_target_def)
  have 2: "WriterMethodForType (h(t \<mapsto> ReferenceTypeData n a)) t
     = WriterMethodForType (h(t \<mapsto> ReferenceTypeData n a)) a"
    by (rule WriterMethodForType_wrapper) (simp add: wrapper_target_def)
  have 3: "WriterMethodForType (h(t \<mapsto> StringData name)) t = Some (Returns (''Write_'' @ name))"
    by (subst WriterMethodForType.simps) simp
  have 4: "WriterMethodForType (h(t \<mapsto> RecordData \<lparr>Name = name, Fields = fs\<rparr>)) t
     = Some (Returns (''Write_'' @ name))"
    by (subst WriterMethodForType.simps) simp
  have 5: "WriterMethodForType (h(t \<mapsto> MapTypeData k v)) t = Some (Returns ''Write_Map'')"
    by (subst WriterMethodForType.simps) simp
  have 6: "WriterMethodForType (h(t \<mapsto> ListTypeData e)) t = Some (Returns ''Write_List'')"
    by (subst WriterMethodForType.simps) simp
  from 1 2 3 4 5 6 show ?thesis by blast
qed

section \<open>The argument list\<close>

lemma join_Cons: "join sep (x # xs) = x @ concat (map (\<lambda>y. sep @ y) xs)"
  by (induction xs arbitrary: x) auto

lemma ArgListMaker_loop_concat:
  "ArgListMaker_loop Signature withNames index paramTypes out =
     out @ concat (map (\<lambda>(i, param).
             (if i > 0 then '', '' else '''') @
             (if withNames then ''arg'' @ itoa i @ '' '' else '''') @ Signature param)
           (enumerate index paramTypes))"
  by (induction paramTypes arbitrary: index out) (simp_all add: Let_def)

lemma concat_separated:
  "0 < k \<Longrightarrow>
   concat (map (\<lambda>(i, param). (if i > 0 then sep else '''') @ f i param) (enumerate k ts))
     = concat (map (\<lambda>y. sep @ y) (map (\<lambda>(i, param). f i param) (enumerate k ts)))"
  by (induction ts arbitrary: k) simp_all

lemma ArgListMaker_join:
  "ArgListMaker Signature paramTypes withNames =
     join '', '' (map (\<lambda>(i, param).
        (if withNames then ''arg'' @ itoa i @ '' '' else '''') @ Signature param)
        (enumerate 0 paramTypes))"
proof (cases paramTypes)
  case Nil
  then show ?thesis by (simp add: ArgListMaker_def)
next
  case (Cons t rest)
  show ?thesis
    unfolding ArgListMaker_def ArgListMaker_loop_concat Cons
    by (simp add: join_Cons concat_separated [of "Suc 0"] del: append_Cons)
qed

text \<open>
  Claim C9. With names, the default \<open>ArgListMaker\<close> renders every parameter as
  \<open>arg\<close>, its index in decimal, a space and the signature of its type, and joins the
  parameters in order with a comma and a space; without names it joins the signatures
  alone; the empty sequence renders as the empty string either way.
\<close>

theorem ArgListMaker_renders:
  "ArgListMaker Signature paramTypes True =
     join '', '' (map (\<lambda>(index, param). ''arg'' @ itoa index @ '' '' @ Signature param)
                    (enumerate 0 paramTypes))
   \<and> ArgListMaker Signature paramTypes False = join '', '' (map Signature paramTypes)
   \<and> ArgListMaker Signature [] withNames = ''''"
proof -
  have "map (\<lambda>(i, param). Signature param) (enumerate 0 paramTypes) = map Signature paramTypes"
  proof -
    have "map (\<lambda>(i, param). Signature param) (enumerate 0 paramTypes)
            = map Signature (map snd (enumerate 0 paramTypes))"
      by (simp add: case_prod_unfold del: map_snd_enumerate)
    then show ?thesis by simp
  qed
  then show ?thesis by (simp add: ArgListMaker_join)
qed

section \<open>Emitting into a buffer\<close>

lemma Execute_buffer: "Execute buffer_Write out ps = (out @ concat ps, False)"
  by (induction ps arbitrary: out) (simp_all add: buffer_Write_def)

lemma StartWritingMethod_buffer:
  assumes "ArgListMaker_field g = Some maker" and "OpType g = Some ft"
  shows "StartWritingMethod buffer_Write g out opName opType argPrefix =
           (out @ method_header_text (ClientName g) (OpName g) (maker (InputTypes ft) True),
            Returns None)"
  using assms by (simp add: StartWritingMethod_def Execute_buffer method_header_text_def del: Execute.simps)

lemma StartWritingMethod_buffer_fails:
  assumes "ArgListMaker_field g = None \<or> OpType g = None"
  shows "StartWritingMethod buffer_Write g out opName opType argPrefix =
           (out @ NL @ ''func (svc *'' @ ClientName g @ '') Send'' @ OpName g @ ''Request('',
            Panics TemplateExecError)"
  using assms
  by (auto simp: StartWritingMethod_def Execute_buffer simp del: Execute.simps split: option.splits)

lemma EndWritingMethod_buffer:
  "EndWritingMethod buffer_Write g out opName opType =
     (out @ request_text (OpMethod g) (OpEndpoint g), Returns None)"
  by (simp add: EndWritingMethod_def Execute_buffer request_text_def del: Execute.simps)

lemma EmitObjectWriterCall_buffer:
  "WriterMethodForType h t = Some (Returns writerName) \<Longrightarrow>
   EmitObjectWriterCall buffer_Write h g out key argName t =
     Some (out @ writer_call writerName argName, Returns None)"
  by (simp add: EmitObjectWriterCall_def buffer_Write_def writer_call_def)

lemma EmitObjectWriterCall_panics:
  "WriterMethodForType h t = Some (Panics e) \<Longrightarrow>
   EmitObjectWriterCall Write h g out key argName t = Some (out, Panics e)"
  by (simp add: EmitObjectWriterCall_def)

lemma writer_calls_Cons:
  "writer_calls index (writerName # rest) =
     writer_call writerName (''arg'' @ itoa index) @ writer_calls (Suc index) rest"
  by (simp add: writer_calls_def)

lemma writer_calls_Nil: "writer_calls index [] = ''''"
  by (simp add: writer_calls_def)

lemma EmitSendRequestMethod_loop_buffer:
  assumes "list_all2 (\<lambda>t writerName. WriterMethodForType h t = Some (Returns writerName))
             paramTypes writerNames"
  shows "EmitSendRequestMethod_loop buffer_Write h g out index paramTypes =
           Some (out @ writer_calls index writerNames, Returns ())"
  using assms
proof (induction paramTypes writerNames arbitrary: out index rule: list_all2_induct)
  case Nil
  then show ?case by (simp add: writer_calls_Nil)
next
  case (Cons t ts writerName rest)
  then show ?case
    by (simp add: EmitObjectWriterCall_buffer writer_calls_Cons)
qed

lemma EmitSendRequestMethod_loop_panics:
  assumes "list_all2 (\<lambda>t writerName. WriterMethodForType h t = Some (Returns writerName))
             before writerNames"
    and "WriterMethodForType h t = Some (Panics e)"
  shows "EmitSendRequestMethod_loop buffer_Write h g out index (before @ t # after) =
           Some (out @ writer_calls index writerNames, Panics e)"
  using assms
proof (induction before writerNames arbitrary: out index rule: list_all2_induct)
  case Nil
  then show ?case by (simp add: writer_calls_Nil EmitObjectWriterCall_panics)
next
  case (Cons t' ts writerName rest)
  then show ?case
    by (simp add: EmitObjectWriterCall_buffer writer_calls_Cons)
qed

lemma EmitSendRequestMethod_args_buffer:
  assumes "list_all2 (\<lambda>t writerName. WriterMethodForType h t = Some (Returns writerName))
             (InputTypes ft) writerNames"
  shows "EmitSendRequestMethod_args buffer_Write h g out ft =
           Some (out @ method_body_text writerNames, Returns ())"
proof (cases writerNames)
  case Nil
  then show ?thesis using assms
    by (simp add: EmitSendRequestMethod_args_def NumInputs_def method_body_text_def)
next
  case (Cons n1 rest1)
  note outer = Cons
  then obtain t1 ts1 where ts: "InputTypes ft = t1 # ts1"
    and t1: "WriterMethodForType h t1 = Some (Returns n1)"
    and rest: "list_all2 (\<lambda>t writerName. WriterMethodForType h t = Some (Returns writerName)) ts1 rest1"
    using assms by (auto simp: list_all2_Cons2)
  show ?thesis
  proof (cases rest1)
    case Nil
    then have "ts1 = []" using rest by simp
    then show ?thesis using ts t1 Nil outer
      by (simp add: EmitSendRequestMethod_args_def NumInputs_def method_body_text_def
          EmitObjectWriterCall_buffer)
  next
    case (Cons n2 rest2)
    then have len: "length ts1 = Suc (length rest2)"
      using rest by (auto dest: list_all2_lengthD)
    have "EmitSendRequestMethod_loop buffer_Write h g (out @ ''['') 0 (InputTypes ft) =
            Some ((out @ ''['') @ writer_calls 0 writerNames, Returns ())"
      using assms by (rule EmitSendRequestMethod_loop_buffer)
    then show ?thesis using ts len Cons outer
      by (simp add: EmitSendRequestMethod_args_def NumInputs_def method_body_text_def
          StartWritingList_def EndWritingList_def buffer_Write_def)
  qed
qed

lemma EmitSendRequestMethod_buffer_returns:
  assumes "ArgListMaker_field g = Some maker"
    and "list_all2 (\<lambda>t writerName. WriterMethodForType h t = Some (Returns writerName))
           (InputTypes ft) writerNames"
  shows "EmitSendRequestMethod buffer_Write h g out opName (Some ft) argPrefix =
           Some (g\<lparr>OpName := opName, OpType := Some ft, OpMethod := ''GET'',
                    OpEndpoint := ''http://hello.world/''\<rparr>,
                 out @ method_header_text (ClientName g) opName (maker (InputTypes ft) True)
                   @ method_body_text writerNames
                   @ request_text ''GET'' ''http://hello.world/'',
                 Returns None)"
proof -
  let ?g = "g\<lparr>OpName := opName, OpType := Some ft, OpMethod := ''GET'',
                OpEndpoint := ''http://hello.world/''\<rparr>"
  have start: "StartWritingMethod buffer_Write ?g out opName (Some ft) ''arg'' =
      (out @ method_header_text (ClientName g) opName (maker (InputTypes ft) True),
       Returns None)"
    using assms(1) StartWritingMethod_buffer [of ?g maker ft out opName "Some ft" "''arg''"]
    by (simp add: ClientName_def)
  have args: "EmitSendRequestMethod_args buffer_Write h ?g
      (out @ method_header_text (ClientName g) opName (maker (InputTypes ft) True)) ft =
      Some ((out @ method_header_text (ClientName g) opName (maker (InputTypes ft) True))
              @ method_body_text writerNames, Returns ())"
    using assms(2) by (rule EmitSendRequestMethod_args_buffer)
  show ?thesis
    unfolding EmitSendRequestMethod_def Let_def start
    by (simp add: args EndWritingMethod_buffer)
qed

text \<open>
  Claim C5. Emission into a buffer, for an operation all of whose input types have a
  writer (the names \<open>writerNames\<close>, in the order of the inputs), returns nil and
  appends the header, the text of the writer calls and the request construction. The text
  of the calls, \<open>method_body_text\<close>, is empty for no input, is the single call
  \<open>W(body, arg0)\<close> for one input, and for more inputs is an opening bracket, one call
  per input in declared order, and a closing bracket.
\<close>

theorem EmitSendRequestMethod_by_input_count:
  assumes "ArgListMaker_field g = Some maker"
    and "list_all2 (\<lambda>t writerName. WriterMethodForType h t = Some (Returns writerName))
           (InputTypes ft) writerNames"
  shows "EmitSendRequestMethod buffer_Write h g out opName (Some ft) argPrefix =
           Some (g\<lparr>OpName := opName, OpType := Some ft, OpMethod := ''GET'',
                    OpEndpoint := ''http://hello.world/''\<rparr>,
                 out @ method_header_text (ClientName g) opName (maker (InputTypes ft) True)
                   @ method_body_text writerNames
                   @ request_text ''GET'' ''http://hello.world/'',
                 Returns None)"
  using assms by (rule EmitSendRequestMethod_buffer_returns)

lemmas example_defs =
  example_store_def example_generator_def example_Signature_def NewGenerator_def
  ClientName_def ArgListMaker_def itoa.simps digit_char_def
  method_body_text_def writer_calls_def writer_call_def

theorem EmitSendRequestMethod_by_input_count_witness:
  "ArgListMaker_field example_generator = Some (ArgListMaker example_Signature)
   \<and> list_all2 (\<lambda>t writerName. WriterMethodForType example_store t = Some (Returns writerName))
        [] []
   \<and> EmitSendRequestMethod buffer_Write example_store example_generator '''' ''GetTeams''
        (Some \<lparr>InputTypes = [], OutputTypes = [1]\<rparr>) ''arg''
      = Some (example_generator\<lparr>OpName := ''GetTeams'',
                 OpType := Some \<lparr>InputTypes = [], OutputTypes = [1]\<rparr>,
                 OpMethod := ''GET'', OpEndpoint := ''http://hello.world/''\<rparr>,
              method_header_text ''Client'' ''GetTeams'' ''''
                @ request_text ''GET'' ''http://hello.world/'',
              Returns None)
   \<and> list_all2 (\<lambda>t writerName. WriterMethodForType example_store t = Some (Returns writerName))
        [2] [''Write_Team'']
   \<and> EmitSendRequestMethod buffer_Write example_store example_generator '''' ''CreateTeam''
        (Some \<lparr>InputTypes = [2], OutputTypes = [1]\<rparr>) ''arg''
      = Some (example_generator\<lparr>OpName := ''CreateTeam'',
                 OpType := Some \<lparr>InputTypes = [2], OutputTypes = [1]\<rparr>,
                 OpMethod := ''GET'', OpEndpoint := ''http://hello.world/''\<rparr>,
              method_header_text ''Client'' ''CreateTeam'' ''arg0 T2''
                @ ''Write_Team(body, arg0)''
                @ request_text ''GET'' ''http://hello.world/'',
              Returns None)
   \<and> list_all2 (\<lambda>t writerName. WriterMethodForType example_store t = Some (Returns writerName))
        [0, 2, 0] [''Write_string'', ''Write_Team'', ''Write_string'']
   \<and> EmitSendRequestMethod buffer_Write example_store example_generator '''' ''RenameTeam''
        (Some \<lparr>InputTypes = [0, 2, 0], OutputTypes = []\<rparr>) ''arg''
      = Some (example_generator\<lparr>OpName := ''RenameTeam'',
                 OpType := Some \<lparr>InputTypes = [0, 2, 0], OutputTypes = []\<rparr>,
                 OpMethod := ''GET'', OpEndpoint := ''http://hello.world/''\<rparr>,
              method_header_text ''Client'' ''RenameTeam'' ''arg0 T0, arg1 T2, arg2 T0''
                @ ''[Write_string(body, arg0)Write_Team(body, arg1)Write_string(body, arg2)]''
                @ request_text ''GET'' ''http://hello.world/'',
              Returns None)"
proof -
  have maker: "ArgListMaker_field example_generator = Some (ArgListMaker example_Signature)"
    by (simp add: example_generator_def NewGenerator_def)
  have w0: "list_all2 (\<lambda>t writerName.
      WriterMethodForType example_store t = Some (Returns writerName)) [] []"
    by simp
  have w1: "list_all2 (\<lambda>t writerName.
      WriterMethodForType example_store t = Some (Returns writerName)) [2] [''Write_Team'']"
    by (simp add: example_store_def WriterMethodForType.simps)
  have w3: "list_all2 (\<lambda>t writerName.
      WriterMethodForType example_store t = Some (Returns writerName))
      [0, 2, 0] [''Write_string'', ''Write_Team'', ''Write_string'']"
    by (simp add: example_store_def WriterMethodForType.simps)
  have e0: "EmitSendRequestMethod buffer_Write example_store example_generator '''' ''GetTeams''
        (Some \<lparr>InputTypes = [], OutputTypes = [1]\<rparr>) ''arg''
      = Some (example_generator\<lparr>OpName := ''GetTeams'',
                 OpType := Some \<lparr>InputTypes = [], OutputTypes = [1]\<rparr>,
                 OpMethod := ''GET'', OpEndpoint := ''http://hello.world/''\<rparr>,
              method_header_text ''Client'' ''GetTeams'' ''''
                @ request_text ''GET'' ''http://hello.world/'',
              Returns None)"
    using EmitSendRequestMethod_by_input_count
      [of example_generator "ArgListMaker example_Signature" example_store
          "\<lparr>InputTypes = [], OutputTypes = [1]\<rparr>" "[]" "''''" "''GetTeams''" "''arg''"]
      maker
    by (simp add: example_defs)
  have e1: "EmitSendRequestMethod buffer_Write example_store example_generator '''' ''CreateTeam''
        (Some \<lparr>InputTypes = [2], OutputTypes = [1]\<rparr>) ''arg''
      = Some (example_generator\<lparr>OpName := ''CreateTeam'',
                 OpType := Some \<lparr>InputTypes = [2], OutputTypes = [1]\<rparr>,
                 OpMethod := ''GET'', OpEndpoint := ''http://hello.world/''\<rparr>,
              method_header_text ''Client'' ''CreateTeam'' ''arg0 T2''
                @ ''Write_Team(body, arg0)''
                @ request_text ''GET'' ''http://hello.world/'',
              Returns None)"
    using EmitSendRequestMethod_by_input_count
      [of example_generator "ArgListMaker example_Signature" example_store
          "\<lparr>InputTypes = [2], OutputTypes = [1]\<rparr>" "[''Write_Team'']"
          "''''" "''CreateTeam''" "''arg''"]
      maker w1
    by (simp add: example_defs)
  have e3: "EmitSendRequestMethod buffer_Write example_store example_generator '''' ''RenameTeam''
        (Some \<lparr>InputTypes = [0, 2, 0], OutputTypes = []\<rparr>) ''arg''
      = Some (example_generator\<lparr>OpName := ''RenameTeam'',
                 OpType := Some \<lparr>InputTypes = [0, 2, 0], OutputTypes = []\<rparr>,
                 OpMethod := ''GET'', OpEndpoint := ''http://hello.world/''\<rparr>,
              method_header_text ''Client'' ''RenameTeam'' ''arg0 T0, arg1 T2, arg2 T0''
                @ ''[Write_string(body, arg0)Write_Team(body, arg1)Write_string(body, arg2)]''
                @ request_text ''GET'' ''http://hello.world/'',
              Returns None)"
    using EmitSendRequestMethod_by_input_count
      [of example_generator "ArgListMaker example_Signature" example_store
          "\<lparr>InputTypes = [0, 2, 0], OutputTypes = []\<rparr>"
          "[''Write_string'', ''Write_Team'', ''Write_string'']"
          "''''" "''RenameTeam''" "''arg''"]
      maker w3
    by (simp add: example_defs)
  from maker w0 e0 w1 e1 w3 e3 show ?thesis by blast
qed

section \<open>Failures during emission\<close>

lemma WriterMethodForType_tuple:
  assumes "chain h n t = Some p" and "h p = Some (TupleTypeData elements)"
  shows "WriterMethodForType h t =
           Some (Panics (ErrorsNew ''Warning: Tuple types not supported in GO''))"
proof -
  have "WriterMethodForType h t = WriterMethodForType h p"
    using assms(1) by (rule WriterMethodForType_follows_chain)
  then show ?thesis
    using assms(2) WriterMethodForType.simps [of h p] by simp
qed

lemma EmitSendRequestMethod_args_panics:
  assumes ins: "InputTypes ft = before @ t # after"
    and ok: "list_all2 (\<lambda>t writerName. WriterMethodForType h t = Some (Returns writerName))
               before writerNames"
    and bad: "WriterMethodForType h t = Some (Panics e)"
  shows "EmitSendRequestMethod_args buffer_Write h g out ft =
           Some (out @ (if before = [] \<and> after = [] then '''' else ''['' @ writer_calls 0 writerNames),
                 Panics e)"
proof (cases "before = [] \<and> after = []")
  case True
  then show ?thesis using ins bad
    by (simp add: EmitSendRequestMethod_args_def NumInputs_def EmitObjectWriterCall_panics)
next
  case False
  then have len: "length (before @ t # after) \<noteq> 1" by (cases before) auto
  have "EmitSendRequestMethod_loop buffer_Write h g (out @ ''['') 0 (before @ t # after) =
          Some ((out @ ''['') @ writer_calls 0 writerNames, Panics e)"
    using ok bad by (rule EmitSendRequestMethod_loop_panics)
  then show ?thesis using False len ins
    by (auto simp: EmitSendRequestMethod_args_def NumInputs_def StartWritingList_def
        buffer_Write_def)
qed

text \<open>
  Claim C4, as the code has it. When an input type of the operation is a tuple (directly
  or behind aliases and references) and the inputs before it have writers, emission into
  a buffer ends in a panic with the error \<open>Warning: Tuple types not supported in GO\<close>;
  no error value is returned. Nothing is rolled back: at the panic the output holds the
  method header and, when the operation has more than one input, the opening bracket and
  the writer calls of the inputs before the tuple; the request construction and the
  closing brace are never written.
\<close>

theorem EmitSendRequestMethod_tuple_input:
  assumes "ArgListMaker_field g = Some maker"
    and "InputTypes ft = before @ t # after"
    and "list_all2 (\<lambda>t writerName. WriterMethodForType h t = Some (Returns writerName))
           before writerNames"
    and "chain h n t = Some p" and "h p = Some (TupleTypeData elements)"
  shows "EmitSendRequestMethod buffer_Write h g out opName (Some ft) argPrefix =
           Some (g\<lparr>OpName := opName, OpType := Some ft, OpMethod := ''GET'',
                    OpEndpoint := ''http://hello.world/''\<rparr>,
                 out @ method_header_text (ClientName g) opName (maker (InputTypes ft) True)
                   @ (if before = [] \<and> after = [] then ''''
                      else ''['' @ writer_calls 0 writerNames),
                 Panics (ErrorsNew ''Warning: Tuple types not supported in GO''))"
proof -
  let ?g = "g\<lparr>OpName := opName, OpType := Some ft, OpMethod := ''GET'',
                OpEndpoint := ''http://hello.world/''\<rparr>"
  let ?out1 = "out @ method_header_text (ClientName g) opName (maker (InputTypes ft) True)"
  have start: "StartWritingMethod buffer_Write ?g out opName (Some ft) ''arg'' =
      (?out1, Returns None)"
    using assms(1) StartWritingMethod_buffer [of ?g maker ft out opName "Some ft" "''arg''"]
    by (simp add: ClientName_def)
  have bad: "WriterMethodForType h t =
      Some (Panics (ErrorsNew ''Warning: Tuple types not supported in GO''))"
    using assms(4,5) by (rule WriterMethodForType_tuple)
  have args: "EmitSendRequestMethod_args buffer_Write h ?g ?out1 ft =
      Some (?out1 @ (if before = [] \<and> after = [] then ''''
                     else ''['' @ writer_calls 0 writerNames),
            Panics (ErrorsNew ''Warning: Tuple types not supported in GO''))"
    using assms(2,3) bad by (rule EmitSendRequestMethod_args_panics)
  show ?thesis
    unfolding EmitSendRequestMethod_def Let_def start
    by (simp add: args)
qed

theorem EmitSendRequestMethod_tuple_input_witness:
  "ArgListMaker_field example_generator = Some (ArgListMaker example_Signature)
   \<and> InputTypes \<lparr>InputTypes = [0, 3, 0], OutputTypes = []\<rparr> = [0] @ 3 # [0]
   \<and> list_all2 (\<lambda>t writerName. WriterMethodForType example_store t = Some (Returns writerName))
        [0] [''Write_string'']
   \<and> chain example_store 0 3 = Some 3
   \<and> example_store 3 = Some (TupleTypeData [0, 0])
   \<and> EmitSendRequestMethod buffer_Write example_store example_generator '''' ''SetPair''
        (Some \<lparr>InputTypes = [0, 3, 0], OutputTypes = []\<rparr>) ''arg''
      = Some (example_generator\<lparr>OpName := ''SetPair'',
                 OpType := Some \<lparr>InputTypes = [0, 3, 0], OutputTypes = []\<rparr>,
                 OpMethod := ''GET'', OpEndpoint := ''http://hello.world/''\<rparr>,
              method_header_text ''Client'' ''SetPair'' ''arg0 T0, arg1 T3, arg2 T0''
                @ ''[Write_string(body, arg0)'',
              Panics (ErrorsNew ''Warning: Tuple types not supported in GO''))"
proof -
  have maker: "ArgListMaker_field example_generator = Some (ArgListMaker example_Signature)"
    by (simp add: example_generator_def NewGenerator_def)
  have ins: "InputTypes \<lparr>InputTypes = [0, 3, 0], OutputTypes = []\<rparr> = [0] @ 3 # [0]"
    by simp
  have ok: "list_all2 (\<lambda>t writerName.
      WriterMethodForType example_store t = Some (Returns writerName)) [0] [''Write_string'']"
    by (simp add: example_store_def WriterMethodForType.simps)
  have ch: "chain example_store 0 3 = Some 3" by simp
  have tup: "example_store 3 = Some (TupleTypeData [0, 0])" by (simp add: example_store_def)
  have "EmitSendRequestMethod buffer_Write example_store example_generator '''' ''SetPair''
        (Some \<lparr>InputTypes = [0, 3, 0], OutputTypes = []\<rparr>) ''arg''
      = Some (example_generator\<lparr>OpName := ''SetPair'',
                 OpType := Some \<lparr>InputTypes = [0, 3, 0], OutputTypes = []\<rparr>,
                 OpMethod := ''GET'', OpEndpoint := ''http://hello.world/''\<rparr>,
              method_header_text ''Client'' ''SetPair'' ''arg0 T0, arg1 T3, arg2 T0''
                @ ''[Write_string(body, arg0)'',
              Panics (ErrorsNew ''Warning: Tuple types not supported in GO''))"
  proof -
    have cn: "ClientName example_generator = ''Client''"
      by (simp add: example_defs)
    have al: "ArgListMaker example_Signature [0, 3, 0] True = ''arg0 T0, arg1 T3, arg2 T0''"
      by (simp add: example_defs)
    have wc: "writer_calls 0 [''Write_string''] = ''Write_string(body, arg0)''"
      by (simp add: example_defs)
    show ?thesis
      using EmitSendRequestMethod_tuple_input
        [OF maker ins ok ch tup, of "''''" "''SetPair''" "''arg''"]
      by (simp add: cn al wc)
  qed
  with maker ins ok ch tup show ?thesis by blast
qed

text \<open>
  Against C4 as stated: for an operation whose only input is a tuple, the output after the
  failed emission holds the opened method, and the failure is a panic.
\<close>

theorem EmitSendRequestMethod_tuple_counterexample:
  "EmitSendRequestMethod buffer_Write example_store example_generator '''' ''SetPair''
     (Some \<lparr>InputTypes = [3], OutputTypes = []\<rparr>) ''arg''
   = Some (example_generator\<lparr>OpName := ''SetPair'',
              OpType := Some \<lparr>InputTypes = [3], OutputTypes = []\<rparr>,
              OpMethod := ''GET'', OpEndpoint := ''http://hello.world/''\<rparr>,
           NL @ ''func (svc *Client) SendSetPairRequest(arg0 T3) (resp *http.Response, error) {''
             @ NL @ TAB @ ''body := bytes.NewBuffer(nil)'' @ NL @ TAB,
           Panics (ErrorsNew ''Warning: Tuple types not supported in GO''))"
  by (simp add: EmitSendRequestMethod_def StartWritingMethod_def EmitSendRequestMethod_args_def
      EmitObjectWriterCall_def WriterMethodForType.simps NumInputs_def buffer_Write_def
      example_defs)

text \<open>
  Claim C10. Whatever the writer, the store and the generator: when
  \<open>EmitSendRequestMethod\<close> returns, the error it returns is nil. Every failure ends the
  call in a panic instead.
\<close>

theorem EmitSendRequestMethod_returns_nil:
  assumes "EmitSendRequestMethod Write h g out opName opType argPrefix = Some (g', out', Returns err)"
  shows "err = None"
  using assms
  by (auto simp: EmitSendRequestMethod_def Let_def
           split: prod.splits outcome.splits option.splits)

theorem EmitSendRequestMethod_returns_nil_witness:
  "EmitSendRequestMethod buffer_Write example_store example_generator '''' ''CreateTeam''
        (Some \<lparr>InputTypes = [1], OutputTypes = [1]\<rparr>) ''arg''
      = Some (example_generator\<lparr>OpName := ''CreateTeam'',
                 OpType := Some \<lparr>InputTypes = [1], OutputTypes = [1]\<rparr>,
                 OpMethod := ''GET'', OpEndpoint := ''http://hello.world/''\<rparr>,
              method_header_text ''Client'' ''CreateTeam'' ''arg0 T1''
                @ ''Write_Team(body, arg0)''
                @ request_text ''GET'' ''http://hello.world/'',
              Returns None)
   \<and> (None :: error option) = None"
proof -
  have e: "EmitSendRequestMethod buffer_Write example_store example_generator '''' ''CreateTeam''
        (Some \<lparr>InputTypes = [1], OutputTypes = [1]\<rparr>) ''arg''
      = Some (example_generator\<lparr>OpName := ''CreateTeam'',
                 OpType := Some \<lparr>InputTypes = [1], OutputTypes = [1]\<rparr>,
                 OpMethod := ''GET'', OpEndpoint := ''http://hello.world/''\<rparr>,
              method_header_text ''Client'' ''CreateTeam'' ''arg0 T1''
                @ ''Write_Team(body, arg0)''
                @ request_text ''GET'' ''http://hello.world/'',
              Returns None)"
    by (simp add: EmitSendRequestMethod_def StartWritingMethod_def EndWritingMethod_def
        EmitSendRequestMethod_args_def EmitObjectWriterCall_def WriterMethodForType.simps
        NumInputs_def buffer_Write_def method_header_text_def request_text_def example_defs)
  from EmitSendRequestMethod_returns_nil [OF e] e show ?thesis by simp
qed

section \<open>The binding table\<close>

lemma StartWritingMethod_ignores_bindings:
  "StartWritingMethod Write (g\<lparr>Bindings := b, httpBindings := b'\<rparr>) out opName opType argPrefix
     = StartWritingMethod Write g out opName opType argPrefix"
  by (simp add: StartWritingMethod_def ClientName_def split: prod.splits)

lemma EndWritingMethod_ignores_bindings:
  "EndWritingMethod Write (g\<lparr>Bindings := b, httpBindings := b'\<rparr>) out opName opType
     = EndWritingMethod Write g out opName opType"
  by (simp add: EndWritingMethod_def)

lemma EmitObjectWriterCall_ignores_generator:
  "EmitObjectWriterCall Write h g out key argName argType
     = EmitObjectWriterCall Write h g' out key argName argType"
  by (simp add: EmitObjectWriterCall_def)

lemma EmitSendRequestMethod_loop_ignores_generator:
  "EmitSendRequestMethod_loop Write h g out index paramTypes
     = EmitSendRequestMethod_loop Write h g' out index paramTypes"
proof (induction paramTypes arbitrary: out index)
  case Nil
  show ?case by simp
next
  case (Cons t ts)
  show ?case
    using Cons.IH EmitObjectWriterCall_ignores_generator [of Write h g _ _ _ t g']
    by (simp split: option.splits prod.splits outcome.splits)
qed

lemma EmitSendRequestMethod_args_ignores_generator:
  "EmitSendRequestMethod_args Write h g out ft = EmitSendRequestMethod_args Write h g' out ft"
  unfolding EmitSendRequestMethod_args_def
    EmitSendRequestMethod_loop_ignores_generator [of Write h g _ _ _ g']
    EmitObjectWriterCall_ignores_generator [of Write h g _ _ _ _ g']
  by (rule refl)

lemma EmitSendRequestMethod_ignores_bindings:
  "EmitSendRequestMethod Write h (g\<lparr>Bindings := b, httpBindings := b'\<rparr>) out opName opType argPrefix
     = map_option (\<lambda>(g', r). (g'\<lparr>Bindings := b, httpBindings := b'\<rparr>, r))
         (EmitSendRequestMethod Write h g out opName opType argPrefix)"
proof -
  let ?g = "g\<lparr>OpName := opName, OpType := opType, OpMethod := ''GET'',
               OpEndpoint := ''http://hello.world/''\<rparr>"
  have g: "g\<lparr>Bindings := b, httpBindings := b'\<rparr>\<lparr>OpName := opName, OpType := opType,
              OpMethod := ''GET'', OpEndpoint := ''http://hello.world/''\<rparr>
           = ?g\<lparr>Bindings := b, httpBindings := b'\<rparr>"
    by simp
  show ?thesis
    unfolding EmitSendRequestMethod_def Let_def g
      StartWritingMethod_ignores_bindings EndWritingMethod_ignores_bindings
      EmitSendRequestMethod_args_ignores_generator [of Write h "?g\<lparr>Bindings := b, httpBindings := b'\<rparr>" _ _ ?g]
    by (simp split: prod.splits outcome.splits option.splits)
qed

lemma StartWritingMethod_buffer_prefix:
  "prefix out (fst (StartWritingMethod buffer_Write g out opName opType argPrefix))"
proof (cases "ArgListMaker_field g = None \<or> OpType g = None")
  case True
  then show ?thesis by (simp add: StartWritingMethod_buffer_fails)
next
  case False
  then obtain maker ft where "ArgListMaker_field g = Some maker" "OpType g = Some ft"
    by auto
  then show ?thesis by (simp add: StartWritingMethod_buffer)
qed

lemma EmitObjectWriterCall_buffer_prefix:
  "EmitObjectWriterCall buffer_Write h g out key argName t = Some (out', r) \<Longrightarrow> prefix out out'"
  by (auto simp: EmitObjectWriterCall_def buffer_Write_def split: option.splits outcome.splits)

lemma EmitSendRequestMethod_loop_buffer_prefix:
  "EmitSendRequestMethod_loop buffer_Write h g out index paramTypes = Some (out', r)
     \<Longrightarrow> prefix out out'"
proof (induction paramTypes arbitrary: out index)
  case Nil
  then show ?case by simp
next
  case (Cons t ts)
  then show ?case
    by (auto split: option.splits prod.splits outcome.splits
             dest!: EmitObjectWriterCall_buffer_prefix
             intro: prefix_order.trans)
qed

lemma EmitSendRequestMethod_args_buffer_prefix:
  assumes "EmitSendRequestMethod_args buffer_Write h g out ft = Some (out', r)"
  shows "prefix out out'"
proof -
  have "prefix out (StartWritingList buffer_Write out)"
    by (simp add: StartWritingList_def buffer_Write_def)
  moreover have "\<And>w. prefix w (EndWritingList buffer_Write w)"
    by (simp add: EndWritingList_def buffer_Write_def)
  ultimately show ?thesis
    using assms unfolding EmitSendRequestMethod_args_def
    by (auto split: if_splits list.splits option.splits prod.splits outcome.splits
             dest!: EmitObjectWriterCall_buffer_prefix EmitSendRequestMethod_loop_buffer_prefix
             intro: prefix_order.trans)
qed

text \<open>
  Claim C3, as the code has it. \<open>EmitSendRequestMethod\<close> never reads the binding
  table: it sets the method to \<open>GET\<close> and the endpoint to \<open>http://hello.world/\<close>
  for every operation. So every emission into a buffer that completes ends with the
  request construction for that method and endpoint, and it completes with the same
  output under any other binding tables \<open>b\<close> and \<open>b'\<close>, whether or not they have an
  entry for the operation.
\<close>

theorem EmitSendRequestMethod_fixed_binding:
  assumes "EmitSendRequestMethod buffer_Write h g out opName opType argPrefix
             = Some (g', out', Returns err)"
  shows "(\<exists>mid. out' = out @ mid @ request_text ''GET'' ''http://hello.world/'')
       \<and> EmitSendRequestMethod buffer_Write h (g\<lparr>Bindings := b, httpBindings := b'\<rparr>)
             out opName opType argPrefix
           = Some (g'\<lparr>Bindings := b, httpBindings := b'\<rparr>, out', Returns err)"
proof
  let ?g = "g\<lparr>OpName := opName, OpType := opType, OpMethod := ''GET'',
               OpEndpoint := ''http://hello.world/''\<rparr>"
  obtain out1 r1 where start: "StartWritingMethod buffer_Write ?g out opName opType ''arg'' = (out1, r1)"
    by (cases "StartWritingMethod buffer_Write ?g out opName opType ''arg''")
  have p1: "prefix out out1"
    using StartWritingMethod_buffer_prefix [of out ?g opName opType "''arg''"] start by simp
  from assms start obtain ft out2 x where ft: "opType = Some ft"
    and args: "EmitSendRequestMethod_args buffer_Write h ?g out1 ft = Some (out2, Returns x)"
    and fin: "out' = out2 @ request_text ''GET'' ''http://hello.world/''"
    by (auto simp: EmitSendRequestMethod_def Let_def EndWritingMethod_buffer
             split: outcome.splits option.splits prod.splits)
  have p2: "prefix out1 out2"
    using args by (rule EmitSendRequestMethod_args_buffer_prefix)
  from p1 p2 have "prefix out out2" by (rule prefix_order.trans)
  then obtain mid where "out2 = out @ mid" by (auto elim: prefixE)
  with fin show "\<exists>mid. out' = out @ mid @ request_text ''GET'' ''http://hello.world/''"
    by simp
next
  show "EmitSendRequestMethod buffer_Write h (g\<lparr>Bindings := b, httpBindings := b'\<rparr>)
             out opName opType argPrefix
           = Some (g'\<lparr>Bindings := b, httpBindings := b'\<rparr>, out', Returns err)"
    using assms by (simp add: EmitSendRequestMethod_ignores_bindings)
qed

theorem EmitSendRequestMethod_fixed_binding_witness:
  "EmitSendRequestMethod buffer_Write example_store example_generator '''' ''CreateTeam''
        (Some \<lparr>InputTypes = [1], OutputTypes = [1]\<rparr>) ''arg''
      = Some (example_generator\<lparr>OpName := ''CreateTeam'',
                 OpType := Some \<lparr>InputTypes = [1], OutputTypes = [1]\<rparr>,
                 OpMethod := ''GET'', OpEndpoint := ''http://hello.world/''\<rparr>,
              method_header_text ''Client'' ''CreateTeam'' ''arg0 T1''
                @ ''Write_Team(body, arg0)''
                @ request_text ''GET'' ''http://hello.world/'',
              Returns None)
   \<and> (\<exists>mid. method_header_text ''Client'' ''CreateTeam'' ''arg0 T1''
                @ ''Write_Team(body, arg0)''
                @ request_text ''GET'' ''http://hello.world/''
              = '''' @ mid @ request_text ''GET'' ''http://hello.world/'')
   \<and> EmitSendRequestMethod buffer_Write example_store
        (example_generator\<lparr>Bindings := example_bindings, httpBindings := example_bindings\<rparr>)
        '''' ''CreateTeam'' (Some \<lparr>InputTypes = [1], OutputTypes = [1]\<rparr>) ''arg''
      = Some (example_generator\<lparr>OpName := ''CreateTeam'',
                 OpType := Some \<lparr>InputTypes = [1], OutputTypes = [1]\<rparr>,
                 OpMethod := ''GET'', OpEndpoint := ''http://hello.world/''\<rparr>
                \<lparr>Bindings := example_bindings, httpBindings := example_bindings\<rparr>,
              method_header_text ''Client'' ''CreateTeam'' ''arg0 T1''
                @ ''Write_Team(body, arg0)''
                @ request_text ''GET'' ''http://hello.world/'',
              Returns None)"
proof -
  have e: "EmitSendRequestMethod buffer_Write example_store example_generator '''' ''CreateTeam''
        (Some \<lparr>InputTypes = [1], OutputTypes = [1]\<rparr>) ''arg''
      = Some (example_generator\<lparr>OpName := ''CreateTeam'',
                 OpType := Some \<lparr>InputTypes = [1], OutputTypes = [1]\<rparr>,
                 OpMethod := ''GET'', OpEndpoint := ''http://hello.world/''\<rparr>,
              method_header_text ''Client'' ''CreateTeam'' ''arg0 T1''
                @ ''Write_Team(body, arg0)''
                @ request_text ''GET'' ''http://hello.world/'',
              Returns None)"
    by (simp add: EmitSendRequestMethod_def StartWritingMethod_def EndWritingMethod_def
        EmitSendRequestMethod_args_def EmitObjectWriterCall_def WriterMethodForType.simps
        NumInputs_def buffer_Write_def method_header_text_def request_text_def example_defs)
  from EmitSendRequestMethod_fixed_binding [OF e, of example_bindings example_bindings] e
  show ?thesis by simp
qed

text \<open>
  Against C3 as stated: the table binds \<open>CreateTeam\<close> to \<open>POST\<close> and \<open>/teams/\<close>,
  and the emitted request construction still uses \<open>GET\<close> and the placeholder endpoint.
\<close>

theorem EmitSendRequestMethod_binding_counterexample:
  "Bindings (NewGenerator example_Signature (Some example_bindings) None ''templates/'')
       ''CreateTeam''
     = Some \<lparr>Method = ''POST'', EndpointTemplate = ''/teams/'', ParameterPlacement = Body\<rparr>
   \<and> EmitSendRequestMethod buffer_Write example_store
        (NewGenerator example_Signature (Some example_bindings) None ''templates/'')
        '''' ''CreateTeam'' (Some \<lparr>InputTypes = [1], OutputTypes = [1]\<rparr>) ''arg''
      = Some (NewGenerator example_Signature (Some example_bindings) None ''templates/''
                \<lparr>OpName := ''CreateTeam'',
                 OpType := Some \<lparr>InputTypes = [1], OutputTypes = [1]\<rparr>,
                 OpMethod := ''GET'', OpEndpoint := ''http://hello.world/''\<rparr>,
              method_header_text ''Client'' ''CreateTeam'' ''arg0 T1''
                @ ''Write_Team(body, arg0)''
                @ request_text ''GET'' ''http://hello.world/'',
              Returns None)
   \<and> request_text ''GET'' ''http://hello.world/'' \<noteq> request_text ''POST'' ''/teams/''"
  by (simp add: EmitSendRequestMethod_def StartWritingMethod_def EndWritingMethod_def
      EmitSendRequestMethod_args_def EmitObjectWriterCall_def WriterMethodForType.simps
      NumInputs_def buffer_Write_def method_header_text_def request_text_def example_defs
      example_bindings_def)

section \<open>The client class\<close>

text \<open>
  Claim C6, as the code has it. \<open>EmitClientClass\<close> never returns an error. When the
  lookup of the service yields nil it panics with a nil dereference (after it has stored
  the service name); when the node found is not a record, the type assertion panics; and
  for a record, provided the template \<open>client.gen\<close> of the templates directory parses
  and its execution succeeds, it stores the record as the service type, writes the text
  of the template to standard output and returns nil.
\<close>

theorem EmitClientClass_outcomes:
  "(TypeSystem g = Some GetType \<and> h (GetType pkgName serviceName) = None \<longrightarrow>
      EmitClientClass files h g stdout pkgName serviceName
        = (g\<lparr>ServiceName := serviceName\<rparr>, stdout, Panics (RuntimeError NilDereference)))
   \<and> (TypeSystem g = Some GetType \<and> h (GetType pkgName serviceName) = Some typeData
        \<and> (case typeData of RecordData r \<Rightarrow> False | _ \<Rightarrow> True) \<longrightarrow>
      EmitClientClass files h g stdout pkgName serviceName
        = (g\<lparr>ServiceName := serviceName\<rparr>, stdout, Panics (RuntimeError TypeAssertion)))
   \<and> (TypeSystem g = Some GetType \<and> h (GetType pkgName serviceName) = Some (RecordData r)
        \<and> files (TemplatesDir g @ ''client.gen'') = Some tmpl
        \<and> tmpl (g\<lparr>ServiceName := serviceName, ServiceType := Some r\<rparr>) = (text, False) \<longrightarrow>
      EmitClientClass files h g stdout pkgName serviceName
        = (g\<lparr>ServiceName := serviceName, ServiceType := Some r\<rparr>, stdout @ text,
           Returns None))
   \<and> (\<forall>e. snd (snd (EmitClientClass files h g stdout pkgName serviceName))
              \<noteq> Returns (Some e))"
proof (intro conjI impI allI)
  assume "TypeSystem g = Some GetType \<and> h (GetType pkgName serviceName) = None"
  then show "EmitClientClass files h g stdout pkgName serviceName
        = (g\<lparr>ServiceName := serviceName\<rparr>, stdout, Panics (RuntimeError NilDereference))"
    by (simp add: EmitClientClass_def)
next
  assume "TypeSystem g = Some GetType \<and> h (GetType pkgName serviceName) = Some typeData
        \<and> (case typeData of RecordData r \<Rightarrow> False | _ \<Rightarrow> True)"
  then show "EmitClientClass files h g stdout pkgName serviceName
        = (g\<lparr>ServiceName := serviceName\<rparr>, stdout, Panics (RuntimeError TypeAssertion))"
    by (cases typeData) (simp_all add: EmitClientClass_def)
next
  assume "TypeSystem g = Some GetType \<and> h (GetType pkgName serviceName) = Some (RecordData r)
        \<and> files (TemplatesDir g @ ''client.gen'') = Some tmpl
        \<and> tmpl (g\<lparr>ServiceName := serviceName, ServiceType := Some r\<rparr>) = (text, False)"
  then show "EmitClientClass files h g stdout pkgName serviceName
        = (g\<lparr>ServiceName := serviceName, ServiceType := Some r\<rparr>, stdout @ text,
           Returns None)"
    by (simp add: EmitClientClass_def)
next
  fix e
  show "snd (snd (EmitClientClass files h g stdout pkgName serviceName)) \<noteq> Returns (Some e)"
    by (simp add: EmitClientClass_def Let_def
        split: option.splits TypeData.splits prod.splits)
qed

theorem EmitClientClass_outcomes_witness:
  "TypeSystem (NewGenerator example_Signature None (Some example_types) ''templates/'')
       = Some example_types
   \<and> example_store (example_types ''relay'' ''Missing'') = None
   \<and> EmitClientClass example_files example_store
        (NewGenerator example_Signature None (Some example_types) ''templates/'')
        '''' ''relay'' ''Missing''
      = (NewGenerator example_Signature None (Some example_types) ''templates/''
           \<lparr>ServiceName := ''Missing''\<rparr>,
         '''', Panics (RuntimeError NilDereference))
   \<and> example_store (example_types ''relay'' ''string'') = Some (StringData ''string'')
   \<and> (case StringData ''string'' of RecordData r \<Rightarrow> False | _ \<Rightarrow> True)
   \<and> EmitClientClass example_files example_store
        (NewGenerator example_Signature None (Some example_types) ''templates/'')
        '''' ''relay'' ''string''
      = (NewGenerator example_Signature None (Some example_types) ''templates/''
           \<lparr>ServiceName := ''string''\<rparr>,
         '''', Panics (RuntimeError TypeAssertion))
   \<and> example_store (example_types ''relay'' ''Team'')
       = Some (RecordData \<lparr>Name = ''Team'', Fields = [(''Name'', 0)]\<rparr>)
   \<and> example_files
        (TemplatesDir (NewGenerator example_Signature None (Some example_types) ''templates/'')
           @ ''client.gen'')
       = Some (\<lambda>g. (''type '' @ ClientName g @ '' struct {}'', False))
   \<and> EmitClientClass example_files example_store
        (NewGenerator example_Signature None (Some example_types) ''templates/'')
        '''' ''relay'' ''Team''
      = (NewGenerator example_Signature None (Some example_types) ''templates/''
           \<lparr>ServiceName := ''Team'',
            ServiceType := Some \<lparr>Name = ''Team'', Fields = [(''Name'', 0)]\<rparr>\<rparr>,
         ''type TeamClient struct {}'', Returns None)"
proof -
  let ?g = "NewGenerator example_Signature None (Some example_types) ''templates/''"
  have ts: "TypeSystem ?g = Some example_types"
    by (simp add: NewGenerator_def)
  have a: "example_store (example_types ''relay'' ''Missing'') = None"
    by (simp add: example_store_def example_types_def)
  have b: "example_store (example_types ''relay'' ''string'') = Some (StringData ''string'')"
    by (simp add: example_store_def example_types_def)
  have b': "(case StringData ''string'' of RecordData r \<Rightarrow> False | _ \<Rightarrow> True)"
    by simp
  have c: "example_store (example_types ''relay'' ''Team'')
       = Some (RecordData \<lparr>Name = ''Team'', Fields = [(''Name'', 0)]\<rparr>)"
    by (simp add: example_store_def example_types_def)
  have f: "example_files (TemplatesDir ?g @ ''client.gen'')
       = Some (\<lambda>g. (''type '' @ ClientName g @ '' struct {}'', False))"
    by (simp add: example_files_def NewGenerator_def)
  have t: "(\<lambda>g. (''type '' @ ClientName g @ '' struct {}'', False))
             (?g\<lparr>ServiceName := ''Team'',
                  ServiceType := Some \<lparr>Name = ''Team'', Fields = [(''Name'', 0)]\<rparr>\<rparr>)
           = (''type TeamClient struct {}'', False)"
    by (simp add: ClientName_def NewGenerator_def)
  have r1: "EmitClientClass example_files example_store ?g '''' ''relay'' ''Missing''
      = (?g\<lparr>ServiceName := ''Missing''\<rparr>, '''', Panics (RuntimeError NilDereference))"
    using EmitClientClass_outcomes
      [of ?g example_types example_store "''relay''" "''Missing''" example_files "''''"]
      ts a by blast
  have r2: "EmitClientClass example_files example_store ?g '''' ''relay'' ''string''
      = (?g\<lparr>ServiceName := ''string''\<rparr>, '''', Panics (RuntimeError TypeAssertion))"
    using EmitClientClass_outcomes
      [of ?g example_types example_store "''relay''" "''string''" example_files "''''"
          "StringData ''string''"]
      ts b b' by blast
  have r3: "EmitClientClass example_files example_store ?g '''' ''relay'' ''Team''
      = (?g\<lparr>ServiceName := ''Team'',
              ServiceType := Some \<lparr>Name = ''Team'', Fields = [(''Name'', 0)]\<rparr>\<rparr>,
         '''' @ ''type TeamClient struct {}'', Returns None)"
    using EmitClientClass_outcomes
      [of ?g example_types example_store "''relay''" "''Team''" example_files "''''" _
          "\<lparr>Name = ''Team'', Fields = [(''Name'', 0)]\<rparr>"
          "\<lambda>g. (''type '' @ ClientName g @ '' struct {}'', False)"
          "''type TeamClient struct {}''"]
      ts c f t by blast
  from ts a r1 b b' r2 c f r3 show ?thesis by simp
qed

text \<open>
  Against C6 as stated: the name \<open>string\<close> is registered and is not a record, and the
  call ends in the panic of the type assertion; no error is returned.
\<close>

theorem EmitClientClass_not_a_record_counterexample:
  "example_store (example_types ''relay'' ''string'') = Some (StringData ''string'')
   \<and> EmitClientClass example_files example_store
        (NewGenerator example_Signature None (Some example_types) ''templates/'')
        '''' ''relay'' ''string''
      = (NewGenerator example_Signature None (Some example_types) ''templates/''
           \<lparr>ServiceName := ''string''\<rparr>,
         '''', Panics (RuntimeError TypeAssertion))"
  by (simp add: EmitClientClass_def NewGenerator_def example_store_def example_types_def)

section \<open>The round trip\<close>

lemma StartWritingMethod_buffer_name:
  "prefix (out @ NL @ ''func (svc *'' @ ClientName g @ '') Send'' @ OpName g @ ''Request('')
     (fst (StartWritingMethod buffer_Write g out opName opType argPrefix))"
proof (cases "ArgListMaker_field g = None \<or> OpType g = None")
  case True
  then show ?thesis by (simp add: StartWritingMethod_buffer_fails)
next
  case False
  then obtain maker ft where "ArgListMaker_field g = Some maker" "OpType g = Some ft"
    by auto
  then show ?thesis
    by (simp add: StartWritingMethod_buffer method_header_text_def)
qed

lemma EmitSendRequestMethod_buffer_after_start:
  assumes "EmitSendRequestMethod buffer_Write h g out opName opType argPrefix = Some (g', out', r)"
  shows "prefix
           (fst (StartWritingMethod buffer_Write
                  (g\<lparr>OpName := opName, OpType := opType, OpMethod := ''GET'',
                      OpEndpoint := ''http://hello.world/''\<rparr>) out opName opType ''arg''))
           out'"
proof -
  let ?g = "g\<lparr>OpName := opName, OpType := opType, OpMethod := ''GET'',
               OpEndpoint := ''http://hello.world/''\<rparr>"
  obtain out1 r1 where start:
    "StartWritingMethod buffer_Write ?g out opName opType ''arg'' = (out1, r1)"
    by (cases "StartWritingMethod buffer_Write ?g out opName opType ''arg''")
  have "prefix out1 out'"
    using assms start
    by (auto simp: EmitSendRequestMethod_def Let_def EndWritingMethod_buffer
             split: outcome.splits option.splits prod.splits
             dest!: EmitSendRequestMethod_args_buffer_prefix
             intro: prefix_order.trans)
  then show ?thesis by (simp add: start)
qed

text \<open>
  Claim C7. With the service \<open>Greeter\<close> registered, a signature function that renders
  the primitive as \<open>string\<close>, and a class template that executes, \<open>EmitClientClass\<close>
  returns nil and the emission of \<open>SayHello\<close> that follows appends
  \<open>SayHello_method_text\<close>: the method \<open>SendSayHelloRequest\<close> of \<open>GreeterClient\<close> with
  the one parameter \<open>arg0 string\<close>, whose text holds \<open>Write_string\<close> exactly once.
  In general, the output of every emission into a buffer that has an outcome starts with
  the method named \<open>Send\<close>, the operation name, \<open>Request\<close>.
\<close>

theorem round_trip_SayHello:
  "(case EmitClientClass [dir @ ''client.gen'' \<mapsto> (\<lambda>g. (render g, False))] Greeter_store
           (NewGenerator (Signature(0 := ''string'')) bindings (Some Greeter_types) dir)
           stdout pkgName ''Greeter'' of
      (g1, stdout1, r1) \<Rightarrow>
        r1 = Returns None \<and>
        EmitSendRequestMethod buffer_Write Greeter_store g1 out ''SayHello''
          (Some \<lparr>InputTypes = [0], OutputTypes = [0]\<rparr>) ''arg''
        = Some (g1\<lparr>OpName := ''SayHello'',
                   OpType := Some \<lparr>InputTypes = [0], OutputTypes = [0]\<rparr>,
                   OpMethod := ''GET'', OpEndpoint := ''http://hello.world/''\<rparr>,
                out @ SayHello_method_text, Returns None))
   \<and> SayHello_method_text =
       method_header_text ''GreeterClient'' ''SayHello'' ''arg0 string''
         @ ''Write_string(body, arg0)'' @ request_text ''GET'' ''http://hello.world/''
   \<and> occurrences ''Write_string'' SayHello_method_text = 1
   \<and> (EmitSendRequestMethod buffer_Write h g out opName opType argPrefix = Some (g', out', r)
        \<longrightarrow> prefix (out @ NL @ ''func (svc *'' @ ClientName g @ '') Send'' @ opName @ ''Request('')
              out')"
proof (intro conjI impI)
  let ?g0 = "NewGenerator (Signature(0 := ''string'')) bindings (Some Greeter_types) dir"
  let ?g1 = "?g0\<lparr>ServiceName := ''Greeter'',
                   ServiceType := Some \<lparr>Name = ''Greeter'', Fields = [(''SayHello'', 1)]\<rparr>\<rparr>"
  have cls: "EmitClientClass [dir @ ''client.gen'' \<mapsto> (\<lambda>g. (render g, False))] Greeter_store
           ?g0 stdout pkgName ''Greeter'' = (?g1, stdout @ render ?g1, Returns None)"
    by (simp add: EmitClientClass_def Let_def NewGenerator_def Greeter_store_def Greeter_types_def)
  have maker: "ArgListMaker_field ?g1 = Some (ArgListMaker (Signature(0 := ''string'')))"
    by (simp add: NewGenerator_def)
  have w: "list_all2 (\<lambda>t writerName. WriterMethodForType Greeter_store t = Some (Returns writerName))
             (InputTypes \<lparr>InputTypes = [0], OutputTypes = [0]\<rparr>) [''Write_string'']"
    by (simp add: Greeter_store_def WriterMethodForType.simps)
  have al: "ArgListMaker (Signature(0 := ''string'')) [0] True = ''arg0 string''"
    by (simp add: ArgListMaker_def itoa.simps digit_char_def)
  have emit: "EmitSendRequestMethod buffer_Write Greeter_store ?g1 out ''SayHello''
          (Some \<lparr>InputTypes = [0], OutputTypes = [0]\<rparr>) ''arg''
        = Some (?g1\<lparr>OpName := ''SayHello'',
                   OpType := Some \<lparr>InputTypes = [0], OutputTypes = [0]\<rparr>,
                   OpMethod := ''GET'', OpEndpoint := ''http://hello.world/''\<rparr>,
                out @ SayHello_method_text, Returns None)"
    using EmitSendRequestMethod_buffer_returns [OF maker w, of out "''SayHello''" "''arg''"]
    by (simp add: ClientName_def NewGenerator_def al SayHello_method_text_def
        method_body_text_def writer_call_def)
  show "case EmitClientClass [dir @ ''client.gen'' \<mapsto> (\<lambda>g. (render g, False))] Greeter_store
           ?g0 stdout pkgName ''Greeter'' of
      (g1, stdout1, r1) \<Rightarrow>
        r1 = Returns None \<and>
        EmitSendRequestMethod buffer_Write Greeter_store g1 out ''SayHello''
          (Some \<lparr>InputTypes = [0], OutputTypes = [0]\<rparr>) ''arg''
        = Some (g1\<lparr>OpName := ''SayHello'',
                   OpType := Some \<lparr>InputTypes = [0], OutputTypes = [0]\<rparr>,
                   OpMethod := ''GET'', OpEndpoint := ''http://hello.world/''\<rparr>,
                out @ SayHello_method_text, Returns None)"
    unfolding cls using emit by simp
next
  show "SayHello_method_text =
       method_header_text ''GreeterClient'' ''SayHello'' ''arg0 string''
         @ ''Write_string(body, arg0)'' @ request_text ''GET'' ''http://hello.world/''"
    by (simp add: SayHello_method_text_def)
next
  show "occurrences ''Write_string'' SayHello_method_text = 1"
    by (simp add: SayHello_method_text_def method_header_text_def request_text_def)
next
  assume e: "EmitSendRequestMethod buffer_Write h g out opName opType argPrefix = Some (g', out', r)"
  let ?g = "g\<lparr>OpName := opName, OpType := opType, OpMethod := ''GET'',
               OpEndpoint := ''http://hello.world/''\<rparr>"
  have "prefix (out @ NL @ ''func (svc *'' @ ClientName ?g @ '') Send'' @ OpName ?g @ ''Request('')
     (fst (StartWritingMethod buffer_Write ?g out opName opType ''arg''))"
    by (rule StartWritingMethod_buffer_name)
  moreover have "ClientName ?g = ClientName g" "OpName ?g = opName"
    by (simp_all add: ClientName_def)
  ultimately have "prefix (out @ NL @ ''func (svc *'' @ ClientName g @ '') Send'' @ opName @ ''Request('')
     (fst (StartWritingMethod buffer_Write ?g out opName opType ''arg''))"
    by simp
  then show "prefix (out @ NL @ ''func (svc *'' @ ClientName g @ '') Send'' @ opName @ ''Request('') out'"
    using EmitSendRequestMethod_buffer_after_start [OF e] by (rule prefix_order.trans)
qed

theorem round_trip_SayHello_witness:
  "EmitSendRequestMethod buffer_Write Greeter_store
      (NewGenerator (\<lambda>t. ''string'') None (Some Greeter_types) ''templates/''
         \<lparr>ServiceName := ''Greeter'',
          ServiceType := Some \<lparr>Name = ''Greeter'', Fields = [(''SayHello'', 1)]\<rparr>\<rparr>)
      '''' ''SayHello'' (Some \<lparr>InputTypes = [0], OutputTypes = [0]\<rparr>) ''arg''
    = Some (NewGenerator (\<lambda>t. ''string'') None (Some Greeter_types) ''templates/''
              \<lparr>ServiceName := ''Greeter'',
               ServiceType := Some \<lparr>Name = ''Greeter'', Fields = [(''SayHello'', 1)]\<rparr>,
               OpName := ''SayHello'',
               OpType := Some \<lparr>InputTypes = [0], OutputTypes = [0]\<rparr>,
               OpMethod := ''GET'', OpEndpoint := ''http://hello.world/''\<rparr>,
            SayHello_method_text, Returns None)
   \<and> prefix (NL @ ''func (svc *GreeterClient) SendSayHelloRequest('') SayHello_method_text"
proof -
  let ?g1 = "NewGenerator (\<lambda>t. ''string'') None (Some Greeter_types) ''templates/''
         \<lparr>ServiceName := ''Greeter'',
          ServiceType := Some \<lparr>Name = ''Greeter'', Fields = [(''SayHello'', 1)]\<rparr>\<rparr>"
  have e: "EmitSendRequestMethod buffer_Write Greeter_store ?g1
      '''' ''SayHello'' (Some \<lparr>InputTypes = [0], OutputTypes = [0]\<rparr>) ''arg''
    = Some (?g1\<lparr>OpName := ''SayHello'',
               OpType := Some \<lparr>InputTypes = [0], OutputTypes = [0]\<rparr>,
               OpMethod := ''GET'', OpEndpoint := ''http://hello.world/''\<rparr>,
            SayHello_method_text, Returns None)"
    by (simp add: EmitSendRequestMethod_def StartWritingMethod_def EndWritingMethod_def
        EmitSendRequestMethod_args_def EmitObjectWriterCall_def WriterMethodForType.simps
        NumInputs_def buffer_Write_def method_header_text_def request_text_def
        SayHello_method_text_def Greeter_store_def NewGenerator_def ClientName_def
        ArgListMaker_def itoa.simps digit_char_def)
  have "prefix ('''' @ NL @ ''func (svc *'' @ ClientName ?g1 @ '') Send'' @ ''SayHello'' @ ''Request('')
          SayHello_method_text"
    using round_trip_SayHello [where h = Greeter_store and g = ?g1 and out = "''''"
        and opName = "''SayHello''"
        and opType = "Some \<lparr>InputTypes = [0], OutputTypes = [0]\<rparr>"
        and argPrefix = "''arg''"] e
    by blast
  then show ?thesis using e by (simp add: ClientName_def NewGenerator_def)
qed

end
